theory Spec2Isabelle
  imports Complex_Main "HOL-Library.Multiset"
begin

section \<open>Data model\<close>

text \<open>
  The repository holds two copies of the class \<^verbatim>\<open>BallSortGame\<close>: the first one
  (bulk pour, count-based win check, same-tube guard in \<^verbatim>\<open>isValidMove\<close>) and a second
  one (one ball per move, shape-based placeholder win check, no same-tube guard).
  The first copy keeps the source's names; the definitions of the second copy carry
  the suffix \<open>_single\<close> (or \<open>_shape\<close> for its win check).

  A ball is a colour tag. \<^verbatim>\<open>Array.prototype.pop\<close> on an empty array yields
  \<^verbatim>\<open>undefined\<close>, which \<^verbatim>\<open>push\<close> would store, so the element type has that value too.
\<close>

datatype ball = JSUndefined | Color string

text \<open>
  The capacity of a tube is a JavaScript number, and \<^verbatim>\<open>validateLevel\<close> admits every
  number that is at least 1, whole or not (2.5 passes). It is a rational here. The code
  compares a capacity with a ball count and subtracts a ball count from it; on the
  numbers of a level file these are the exact operations, in every case that decides a
  branch or the number of turns of the pouring loop. (A literal too large for a double,
  such as 1e999, is read as infinity; on a given board it acts as any capacity above
  all ball counts does.)
\<close>

record tube =
  tube_id :: int
  balls :: "ball list"
  capacity :: rat

text \<open>
  \<^verbatim>\<open>currentGameState\<close>: the object built by \<^verbatim>\<open>createGameLevel\<close>. The move count and
  the thresholds are integers; a field that may be missing is an option, and \<^verbatim>\<open>stars\<close>
  is the object with the string keys "1", "2", "3".
\<close>

record gameState =
  tubes :: "tube list"
  moves :: int
  minMoves :: "int option"
  stars :: "string \<rightharpoonup> int"
  desiredLevel :: "int option"

text \<open>
  The fields of \<^verbatim>\<open>BallSortGame\<close> that the game logic reads and writes. \<open>completions\<close>
  logs the calls \<^verbatim>\<open>levelManager.completeLevel(level, moves, starsEarned)\<close> as pairs
  (moves, stars).
\<close>

record game =
  currentGameState :: gameState
  selectedTube :: "int option"
  gameComplete :: bool
  completions :: "(int \<times> nat) list"

section \<open>JavaScript primitives\<close>

text \<open>\<^verbatim>\<open>m <= x\<close> where \<^verbatim>\<open>x\<close> may be \<^verbatim>\<open>undefined\<close>: the comparison is then false.\<close>

definition js_le :: "int \<Rightarrow> int option \<Rightarrow> bool" where
  "js_le m x = (case x of None \<Rightarrow> False | Some v \<Rightarrow> m \<le> v)"

definition js_ge :: "int \<Rightarrow> int option \<Rightarrow> bool" where
  "js_ge m x = (case x of None \<Rightarrow> False | Some v \<Rightarrow> m \<ge> v)"

text \<open>\<^verbatim>\<open>x || d\<close> on a number that may be missing: \<^verbatim>\<open>undefined\<close> and \<^verbatim>\<open>0\<close> are falsy.\<close>

definition js_or_default :: "int option \<Rightarrow> int \<Rightarrow> int" where
  "js_or_default x d = (case x of None \<Rightarrow> d | Some v \<Rightarrow> if v = 0 then d else v)"

text \<open>
  \<^verbatim>\<open>moves++\<close> on a double that holds an integer. The sum is exact for a number from
  \<open>- 2 ^ 53\<close> to \<open>2 ^ 53 - 1\<close>. \<open>2 ^ 53 + 1\<close> is not a double and rounds back to
  \<open>2 ^ 53\<close>, so a count that starts at 0 stays there. Between \<open>2 ^ 53\<close> and \<open>2 ^ 54\<close>
  in absolute value the doubles are the even integers and the sum lies halfway between
  two of them; it rounds to the one whose half is even. Beyond, the sum rounds back to
  the number itself.
\<close>

definition js_increment :: "int \<Rightarrow> int" where
  "js_increment m =
     (if - (2 ^ 53) \<le> m \<and> m < 2 ^ 53 then m + 1
      else if \<bar>m\<bar> < 2 ^ 54 \<and> m mod 4 = 2 then m + 2
      else m)"

fun pop :: "ball list \<Rightarrow> ball \<times> ball list" where
  "pop [] = (JSUndefined, [])"
| "pop (x # xs) = (last (x # xs), butlast (x # xs))"

definition push :: "ball list \<Rightarrow> ball \<Rightarrow> ball list" where
  "push xs b = xs @ [b]"

text \<open>
  \<^verbatim>\<open>tubes.find(t => t.id === tubeId)\<close> returns a reference to the first tube with that
  id; the reference is its index in the array.
\<close>

fun findTube :: "int \<Rightarrow> tube list \<Rightarrow> nat option" where
  "findTube tubeId [] = None"
| "findTube tubeId (t # ts) =
     (if tube_id t = tubeId then Some 0 else map_option Suc (findTube tubeId ts))"

section \<open>Level completion and stars\<close>

text \<open>
  The star computation of \<^verbatim>\<open>handleLevelComplete\<close> (the same in both copies):
  \<^verbatim>\<open>
    let starsEarned = 0;
    if (moves <= stars["3"]) starsEarned = 3;
    else if (moves <= stars["2"]) starsEarned = 2;
    else if (moves <= stars["1"]) starsEarned = 1;
  \<close>
\<close>

definition starsEarned :: "int \<Rightarrow> (string \<rightharpoonup> int) \<Rightarrow> nat" where
  "starsEarned mv st =
     (if js_le mv (st ''3'') then 3
      else if js_le mv (st ''2'') then 2
      else if js_le mv (st ''1'') then 1
      else 0)"

definition handleLevelComplete :: "game \<Rightarrow> game" where
  "handleLevelComplete g =
     (let g1 = g\<lparr>gameComplete := True\<rparr>;
          mv = moves (currentGameState g1);
          st = stars (currentGameState g1)
      in g1\<lparr>completions := completions g1 @ [(mv, starsEarned mv st)]\<rparr>)"

section \<open>Moves, first copy: bulk pour\<close>

datatype moveResult = Valid | Invalid string

text \<open>
  \<^verbatim>\<open>isValidMove(fromTube, toTube)\<close>, first copy: empty source, then same id, then
  full destination.
\<close>

definition isValidMove :: "tube \<Rightarrow> tube \<Rightarrow> moveResult" where
  "isValidMove fromTube toTube =
     (if length (balls fromTube) = 0 then Invalid ''No balls to move''
      else if tube_id fromTube = tube_id toTube then Invalid ''Cannot move to same tube''
      else if of_nat (length (balls toTube)) \<ge> capacity toTube
        then Invalid ''Destination tube is full''
      else Valid)"

text \<open>
  The body of the pouring loop, on the array of tubes (the two tube objects are given
  by their indices, and the second statement reads the array the first one wrote):
  \<^verbatim>\<open>const ball = fromTube.balls.pop(); toTube.balls.push(ball);\<close>
\<close>

definition moveBall :: "nat \<Rightarrow> nat \<Rightarrow> tube list \<Rightarrow> tube list" where
  "moveBall i j ts =
     (let (ball, rest) = pop (balls (ts ! i));
          ts1 = ts[i := (ts ! i)\<lparr>balls := rest\<rparr>];
          ts2 = ts1[j := (ts1 ! j)\<lparr>balls := push (balls (ts1 ! j)) ball\<rparr>]
      in ts2)"

text \<open>
  The pouring loop \<^verbatim>\<open>for (let i = 0; i < actualBallsToMove; i++) { ... }\<close> with its
  counter and its bound, which need not be whole: for the bound 2.5 the body runs for
  \<open>i = 0, 1, 2\<close>.
\<close>

function pourLoop :: "nat \<Rightarrow> rat \<Rightarrow> nat \<Rightarrow> nat \<Rightarrow> tube list \<Rightarrow> tube list" where
  "pourLoop i actualBallsToMove fromTube toTube ts =
     (if of_nat i < actualBallsToMove
      then pourLoop (Suc i) actualBallsToMove fromTube toTube (moveBall fromTube toTube ts)
      else ts)"
  by pat_completeness auto
termination
proof (relation "measure (\<lambda>(i, b, fromTube, toTube, ts). nat \<lceil>b\<rceil> - i)")
  show "wf (measure (\<lambda>(i, b, fromTube, toTube, ts). nat \<lceil>b :: rat\<rceil> - i))"
    by simp
next
  fix i :: nat and actualBallsToMove :: rat and fromTube toTube :: nat and ts :: "tube list"
  assume "of_nat i < actualBallsToMove"
  then have "int i < \<lceil>actualBallsToMove\<rceil>"
    by (simp add: less_ceiling_iff)
  then show "((Suc i, actualBallsToMove, fromTube, toTube, moveBall fromTube toTube ts),
              (i, actualBallsToMove, fromTube, toTube, ts))
             \<in> measure (\<lambda>(i, b, fromTube, toTube, ts). nat \<lceil>b\<rceil> - i)"
    by simp
qed

declare pourLoop.simps [simp del]

text \<open>
  \<^verbatim>\<open>performMove(fromTube, toTube)\<close>, first copy. The count is fixed before the loop
  (\<^verbatim>\<open>Math.min(ballsToMove, availableSpace)\<close>), and the move counter is incremented once.
\<close>

definition performMove :: "nat \<Rightarrow> nat \<Rightarrow> gameState \<Rightarrow> gameState" where
  "performMove fromTube toTube gs =
     (let ballsToMove = (of_nat (length (balls (tubes gs ! fromTube))) :: rat);
          availableSpace = capacity (tubes gs ! toTube)
                             - of_nat (length (balls (tubes gs ! toTube)));
          actualBallsToMove = min ballsToMove availableSpace;
          ts = pourLoop 0 actualBallsToMove fromTube toTube (tubes gs)
      in gs\<lparr>tubes := ts, moves := js_increment (moves gs)\<rparr>)"

definition deselectTube :: "game \<Rightarrow> game" where
  "deselectTube g = g\<lparr>selectedTube := None\<rparr>"

definition selectTube :: "int \<Rightarrow> game \<Rightarrow> game" where
  "selectTube tubeId g = g\<lparr>selectedTube := Some tubeId\<rparr>"

text \<open>
  The win test of the first copy, the local \<^verbatim>\<open>allTubesAtDesiredLevel\<close> of
  \<^verbatim>\<open>checkWinCondition\<close>:
  \<^verbatim>\<open>
    const desiredLevel = this.currentGameState.desiredLevel || 2;
    const allTubesAtDesiredLevel = this.currentGameState.tubes.every(
      (tube, index) => tube.balls.length === desiredLevel);
  \<close>
\<close>

definition allTubesAtDesiredLevel :: "gameState \<Rightarrow> bool" where
  "allTubesAtDesiredLevel gs =
     (let dl = js_or_default (desiredLevel gs) 2
      in list_all (\<lambda>tube. int (length (balls tube)) = dl) (tubes gs))"

text \<open>
  \<^verbatim>\<open>checkWinCondition()\<close>, first copy. The method has no \<^verbatim>\<open>return\<close> statement: its
  result is that it calls \<^verbatim>\<open>handleLevelComplete\<close> when the test holds.
\<close>

definition checkWinCondition :: "game \<Rightarrow> game" where
  "checkWinCondition g =
     (if allTubesAtDesiredLevel (currentGameState g) then handleLevelComplete g else g)"

text \<open>
  \<^verbatim>\<open>attemptMove(fromTubeId, toTubeId)\<close>, first copy. The method returns nothing; the
  outcome records which branch ran (the console error, the \<^verbatim>\<open>showInvalidMove\<close> call
  with its reason, or the move).
\<close>

datatype outcome = InvalidTubeIds | InvalidMove string | Moved

definition attemptMove :: "int \<Rightarrow> int \<Rightarrow> game \<Rightarrow> outcome \<times> game" where
  "attemptMove fromTubeId toTubeId g =
     (let ts = tubes (currentGameState g) in
      case findTube fromTubeId ts of
        None \<Rightarrow> (InvalidTubeIds, g)
      | Some i \<Rightarrow>
         (case findTube toTubeId ts of
            None \<Rightarrow> (InvalidTubeIds, g)
          | Some j \<Rightarrow>
             (case isValidMove (ts ! i) (ts ! j) of
                Invalid reason \<Rightarrow> (InvalidMove reason, g)
              | Valid \<Rightarrow>
                  (let g1 = g\<lparr>currentGameState := performMove i j (currentGameState g)\<rparr>;
                       g2 = deselectTube g1;
                       g3 = checkWinCondition g2
                   in (Moved, g3)))))"

text \<open>
  \<^verbatim>\<open>handleTubeClick(tubeId, event)\<close>, first copy. The result names the branch taken.
\<close>

datatype click = Ignored | TubeNotFound | Selected | EmptyTube | Deselected
  | Attempted outcome

definition handleTubeClick :: "int \<Rightarrow> game \<Rightarrow> click \<times> game" where
  "handleTubeClick tubeId g =
     (if gameComplete g then (Ignored, g)
      else case findTube tubeId (tubes (currentGameState g)) of
        None \<Rightarrow> (TubeNotFound, g)
      | Some k \<Rightarrow>
         (case selectedTube g of
            None \<Rightarrow>
              (if length (balls (tubes (currentGameState g) ! k)) > 0
               then (Selected, selectTube tubeId g)
               else (EmptyTube, g))
          | Some sel \<Rightarrow>
              (if sel = tubeId then (Deselected, deselectTube g)
               else (case attemptMove sel tubeId g of (r, g') \<Rightarrow> (Attempted r, g')))))"

section \<open>Moves, second copy: one ball per move\<close>

definition isValidMove_single :: "tube \<Rightarrow> tube \<Rightarrow> moveResult" where
  "isValidMove_single fromTube toTube =
     (if length (balls fromTube) = 0 then Invalid ''No balls to move''
      else if of_nat (length (balls toTube)) \<ge> capacity toTube then Invalid ''Tube is full''
      else Valid)"

definition performMove_single :: "nat \<Rightarrow> nat \<Rightarrow> gameState \<Rightarrow> gameState" where
  "performMove_single fromTube toTube gs =
     gs\<lparr>tubes := moveBall fromTube toTube (tubes gs), moves := js_increment (moves gs)\<rparr>"

text \<open>
  \<^verbatim>\<open>checkWinCondition()\<close>, second copy (the placeholder):
  \<^verbatim>\<open>
    const hasEmptyTubes = tubes.some(tube => tube.balls.length === 0);
    const hasFullTubes = tubes.some(tube => tube.balls.length === tube.capacity);
    if (moves >= minMoves && hasEmptyTubes && hasFullTubes) this.handleLevelComplete();
  \<close>
\<close>

definition checkWinCondition_shape :: "game \<Rightarrow> game" where
  "checkWinCondition_shape g =
     (let gs = currentGameState g;
          hasEmptyTubes = list_ex (\<lambda>tube. length (balls tube) = 0) (tubes gs);
          hasFullTubes =
            list_ex (\<lambda>tube. of_nat (length (balls tube)) = capacity tube) (tubes gs)
      in if js_ge (moves gs) (minMoves gs) \<and> hasEmptyTubes \<and> hasFullTubes
         then handleLevelComplete g else g)"

definition attemptMove_single :: "int \<Rightarrow> int \<Rightarrow> game \<Rightarrow> outcome \<times> game" where
  "attemptMove_single fromTubeId toTubeId g =
     (let ts = tubes (currentGameState g) in
      case findTube fromTubeId ts of
        None \<Rightarrow> (InvalidTubeIds, g)
      | Some i \<Rightarrow>
         (case findTube toTubeId ts of
            None \<Rightarrow> (InvalidTubeIds, g)
          | Some j \<Rightarrow>
             (case isValidMove_single (ts ! i) (ts ! j) of
                Invalid reason \<Rightarrow> (InvalidMove reason, g)
              | Valid \<Rightarrow>
                  (let g1 = g\<lparr>currentGameState :=
                               performMove_single i j (currentGameState g)\<rparr>;
                       g2 = deselectTube g1;
                       g3 = checkWinCondition_shape g2
                   in (Moved, g3)))))"

definition handleTubeClick_single :: "int \<Rightarrow> game \<Rightarrow> click \<times> game" where
  "handleTubeClick_single tubeId g =
     (if gameComplete g then (Ignored, g)
      else case findTube tubeId (tubes (currentGameState g)) of
        None \<Rightarrow> (TubeNotFound, g)
      | Some k \<Rightarrow>
         (case selectedTube g of
            None \<Rightarrow>
              (if length (balls (tubes (currentGameState g) ! k)) > 0
               then (Selected, selectTube tubeId g)
               else (EmptyTube, g))
          | Some sel \<Rightarrow>
              (if sel = tubeId then (Deselected, deselectTube g)
               else (case attemptMove_single sel tubeId g of
                       (r, g') \<Rightarrow> (Attempted r, g')))))"

section \<open>Levels\<close>

text \<open>
  A level definition as \<^verbatim>\<open>validateLevel\<close> receives it. \<open>level_id\<close>, \<open>level_tubes\<close> and
  \<open>level_colors\<close> are \<open>None\<close> when the field is missing (for the two arrays: or is not an
  array). The tubes are typed: each has an \<^verbatim>\<open>id\<close>, an array \<^verbatim>\<open>balls\<close> and a
  number \<^verbatim>\<open>capacity\<close>, so of the tests in the loop over the tubes only
  \<^verbatim>\<open>tube.capacity < 1\<close> and the colour test can fail.
\<close>

record levelData =
  level_id :: "int option"
  level_tubes :: "tube list option"
  level_colors :: "ball list option"
  level_minMoves :: "int option"
  level_stars :: "string \<rightharpoonup> int"
  level_desiredLevel :: "int option"

text \<open>The loop over the tubes of \<^verbatim>\<open>validateLevel\<close>, with its early returns.\<close>

fun validateTubes :: "ball list \<Rightarrow> tube list \<Rightarrow> bool" where
  "validateTubes cs [] = True"
| "validateTubes cs (t # ts) =
     (if capacity t < 1 then False
      else if \<not> list_all (\<lambda>b. b \<in> set cs) (balls t) then False
      else validateTubes cs ts)"

text \<open>
  \<^verbatim>\<open>validateLevel(levelData)\<close>; \<open>None\<close> is a value that is null or not an object.
  \<^verbatim>\<open>!levelData.levelId\<close> holds for a missing id and for the id 0.
\<close>

definition validateLevel :: "levelData option \<Rightarrow> bool" where
  "validateLevel l =
     (case l of
        None \<Rightarrow> False
      | Some ld \<Rightarrow>
          (if level_id ld = None \<or> level_id ld = Some 0 \<or> level_tubes ld = None then False
           else if level_colors ld = None then False
           else (case (level_colors ld, level_tubes ld) of
                   (Some cs, Some ts) \<Rightarrow> validateTubes cs ts
                 | _ \<Rightarrow> False)))"

text \<open>
  \<^verbatim>\<open>createGameLevel(levelData)\<close>: \<open>None\<close> for the \<^verbatim>\<open>null\<close> result and for the
  TypeError of \<^verbatim>\<open>levelData.tubes.map\<close> on a missing array. The copy of each balls
  array is the list itself.
\<close>

definition createGameLevel :: "levelData option \<Rightarrow> gameState option" where
  "createGameLevel l =
     (case l of
        None \<Rightarrow> None
      | Some ld \<Rightarrow>
          (case level_tubes ld of
             None \<Rightarrow> None
           | Some ts \<Rightarrow>
               Some \<lparr>tubes = map (\<lambda>t. t\<lparr>balls := balls t\<rparr>) ts, moves = 0,
                     minMoves = level_minMoves ld, stars = level_stars ld,
                     desiredLevel = level_desiredLevel ld\<rparr>))"

text \<open>
  \<^verbatim>\<open>loadLevel(levelId)\<close> of the game, given the level file's content: the level
  manager throws on data that fails \<^verbatim>\<open>validateLevel\<close>, the game catches the error and
  keeps its state; otherwise a new board replaces the old one. \<^verbatim>\<open>resetLevel\<close> and
  \<^verbatim>\<open>nextLevel\<close> call it.
\<close>

definition loadLevel :: "levelData option \<Rightarrow> game \<Rightarrow> game" where
  "loadLevel l g =
     (if \<not> validateLevel l then g
      else case createGameLevel l of
        None \<Rightarrow> g
      | Some gs \<Rightarrow> g\<lparr>currentGameState := gs, selectedTube := None, gameComplete := False\<rparr>)"

section \<open>The event loop\<close>

text \<open>A sequence of tube clicks, handled one after the other.\<close>

fun handleTubeClicks :: "int list \<Rightarrow> game \<Rightarrow> game" where
  "handleTubeClicks [] g = g"
| "handleTubeClicks (c # cs) g = handleTubeClicks cs (snd (handleTubeClick c g))"

section \<open>Properties of a board\<close>

text \<open>The multiset of all balls of a board, and the capacity invariant.\<close>

definition allBalls :: "tube list \<Rightarrow> ball multiset" where
  "allBalls ts = mset (concat (map balls ts))"

definition capacityInvariant :: "tube list \<Rightarrow> bool" where
  "capacityInvariant ts = list_all (\<lambda>t. of_nat (length (balls t)) \<le> capacity t) ts"

text \<open>
  The number of turns of the pouring loop from tube \<open>i\<close> into tube \<open>j\<close>: the bound
  \<^verbatim>\<open>Math.min(ballsToMove, availableSpace)\<close> rounded up.
\<close>

definition poured :: "tube list \<Rightarrow> nat \<Rightarrow> nat \<Rightarrow> nat" where
  "poured ts i j =
     nat \<lceil>min (of_nat (length (balls (ts ! i))) :: rat)
              (capacity (ts ! j) - of_nat (length (balls (ts ! j))))\<rceil>"

text \<open>Every capacity of the board is a whole number.\<close>

definition integerCapacities :: "tube list \<Rightarrow> bool" where
  "integerCapacities ts = list_all (\<lambda>t. capacity t = of_int \<lfloor>capacity t\<rfloor>) ts"

section \<open>Example boards\<close>

text \<open>Two tubes of capacity 4, the first holding two red balls.\<close>

definition exampleGame :: game where
  "exampleGame =
     \<lparr>currentGameState =
        \<lparr>tubes = [\<lparr>tube_id = 0, balls = [Color ''red'', Color ''red''], capacity = 4\<rparr>,
                  \<lparr>tube_id = 1, balls = [], capacity = 4\<rparr>],
         moves = 0, minMoves = Some 1,
         stars = [''1'' \<mapsto> 18, ''2'' \<mapsto> 13, ''3'' \<mapsto> 9],
         desiredLevel = None\<rparr>,
      selectedTube = None, gameComplete = False, completions = []\<rparr>"

text \<open>Three balls over a tube with room for two; tube 0 is the pending source.\<close>

definition pourGame :: game where
  "pourGame =
     \<lparr>currentGameState =
        \<lparr>tubes = [\<lparr>tube_id = 0, balls = [Color ''red'', Color ''green'', Color ''blue''],
                   capacity = 4\<rparr>,
                  \<lparr>tube_id = 1, balls = [Color ''yellow'', Color ''yellow''], capacity = 4\<rparr>,
                  \<lparr>tube_id = 2, balls = [], capacity = 4\<rparr>],
         moves = 0, minMoves = Some 1,
         stars = [''1'' \<mapsto> 18, ''2'' \<mapsto> 13, ''3'' \<mapsto> 9],
         desiredLevel = None\<rparr>,
      selectedTube = Some 0, gameComplete = False, completions = []\<rparr>"

text \<open>A tube with one green ball beside a full tube of four; tube 0 is the pending source.\<close>

definition fullGame :: game where
  "fullGame =
     \<lparr>currentGameState =
        \<lparr>tubes = [\<lparr>tube_id = 0, balls = [Color ''green''], capacity = 4\<rparr>,
                  \<lparr>tube_id = 1, balls = [Color ''green'', Color ''green'', Color ''green'',
                                         Color ''green''], capacity = 4\<rparr>],
         moves = 3, minMoves = Some 1,
         stars = [''1'' \<mapsto> 18, ''2'' \<mapsto> 13, ''3'' \<mapsto> 9],
         desiredLevel = None\<rparr>,
      selectedTube = Some 0, gameComplete = False, completions = []\<rparr>"

text \<open>
  One pour from a win with the default target of 2 balls per tube: tube 1 has room for
  one ball only.
\<close>

definition winningGame :: game where
  "winningGame =
     \<lparr>currentGameState =
        \<lparr>tubes = [\<lparr>tube_id = 0, balls = [Color ''red'', Color ''red'', Color ''blue''],
                   capacity = 3\<rparr>,
                  \<lparr>tube_id = 1, balls = [Color ''blue''], capacity = 2\<rparr>],
         moves = 6, minMoves = Some 1,
         stars = [''1'' \<mapsto> 18, ''2'' \<mapsto> 13, ''3'' \<mapsto> 9],
         desiredLevel = None\<rparr>,
      selectedTube = Some 0, gameComplete = False, completions = []\<rparr>"

text \<open>The board after that pour: both tubes hold 2 balls, the level is complete.\<close>

definition wonGame :: game where
  "wonGame =
     \<lparr>currentGameState =
        \<lparr>tubes = [\<lparr>tube_id = 0, balls = [Color ''red'', Color ''red''], capacity = 3\<rparr>,
                  \<lparr>tube_id = 1, balls = [Color ''blue'', Color ''blue''], capacity = 2\<rparr>],
         moves = 7, minMoves = Some 1,
         stars = [''1'' \<mapsto> 18, ''2'' \<mapsto> 13, ''3'' \<mapsto> 9],
         desiredLevel = None\<rparr>,
      selectedTube = None, gameComplete = True, completions = [(7, 3)]\<rparr>"

text \<open>A level definition in the format of the level files.\<close>

definition exampleLevel :: levelData where
  "exampleLevel =
     \<lparr>level_id = Some 1,
      level_tubes = Some [\<lparr>tube_id = 0, balls = [Color ''red'', Color ''blue''], capacity = 4\<rparr>,
                          \<lparr>tube_id = 1, balls = [], capacity = 4\<rparr>],
      level_colors = Some [Color ''red'', Color ''blue''],
      level_minMoves = Some 8,
      level_stars = [''1'' \<mapsto> 15, ''2'' \<mapsto> 12, ''3'' \<mapsto> 8],
      level_desiredLevel = None\<rparr>"

text \<open>
  A level with two tubes of capacity 2.5, and the game on its board: three balls beside
  an empty tube and a tube with two balls.
\<close>

definition halfLevel :: levelData where
  "halfLevel =
     \<lparr>level_id = Some 3,
      level_tubes = Some [\<lparr>tube_id = 0, balls = [Color ''red'', Color ''green'', Color ''blue''],
                            capacity = 4\<rparr>,
                          \<lparr>tube_id = 1, balls = [], capacity = 5 / 2\<rparr>,
                          \<lparr>tube_id = 2, balls = [Color ''yellow'', Color ''yellow''],
                            capacity = 5 / 2\<rparr>],
      level_colors = Some [Color ''red'', Color ''green'', Color ''blue'', Color ''yellow''],
      level_minMoves = Some 1,
      level_stars = [''1'' \<mapsto> 18, ''2'' \<mapsto> 13, ''3'' \<mapsto> 9],
      level_desiredLevel = None\<rparr>"

definition halfGame :: game where
  "halfGame =
     \<lparr>currentGameState =
        \<lparr>tubes = [\<lparr>tube_id = 0, balls = [Color ''red'', Color ''green'', Color ''blue''],
                   capacity = 4\<rparr>,
                  \<lparr>tube_id = 1, balls = [], capacity = 5 / 2\<rparr>,
                  \<lparr>tube_id = 2, balls = [Color ''yellow'', Color ''yellow''], capacity = 5 / 2\<rparr>],
         moves = 0, minMoves = Some 1,
         stars = [''1'' \<mapsto> 18, ''2'' \<mapsto> 13, ''3'' \<mapsto> 9],
         desiredLevel = None\<rparr>,
      selectedTube = None, gameComplete = False, completions = []\<rparr>"

text \<open>The board of \<open>pourGame\<close> after \<open>2 ^ 53\<close> moves.\<close>

definition maxMovesGame :: game where
  "maxMovesGame = pourGame\<lparr>currentGameState := (currentGameState pourGame)\<lparr>moves := 2 ^ 53\<rparr>\<rparr>"

text \<open>One empty tube in a level whose \<^verbatim>\<open>desiredLevel\<close> is 0.\<close>

definition zeroTargetState :: gameState where
  "zeroTargetState =
     \<lparr>tubes = [\<lparr>tube_id = 0, balls = [], capacity = 4\<rparr>],
      moves = 0, minMoves = Some 1,
      stars = [''1'' \<mapsto> 18, ''2'' \<mapsto> 13, ''3'' \<mapsto> 9],
      desiredLevel = Some 0\<rparr>"

text \<open>Four tubes of two balls each with target 2, sorted by colour and mixed.\<close>

definition fourTubes :: gameState where
  "fourTubes =
     \<lparr>tubes = [\<lparr>tube_id = 0, balls = [Color ''red'', Color ''red''], capacity = 4\<rparr>,
               \<lparr>tube_id = 1, balls = [Color ''blue'', Color ''blue''], capacity = 4\<rparr>,
               \<lparr>tube_id = 2, balls = [Color ''green'', Color ''green''], capacity = 4\<rparr>,
               \<lparr>tube_id = 3, balls = [Color ''pink'', Color ''pink''], capacity = 4\<rparr>],
      moves = 12, minMoves = Some 8,
      stars = [''1'' \<mapsto> 18, ''2'' \<mapsto> 13, ''3'' \<mapsto> 9],
      desiredLevel = Some 2\<rparr>"

definition fourTubesMixed :: gameState where
  "fourTubesMixed =
     \<lparr>tubes = [\<lparr>tube_id = 0, balls = [Color ''red'', Color ''blue''], capacity = 4\<rparr>,
               \<lparr>tube_id = 1, balls = [Color ''blue'', Color ''green''], capacity = 4\<rparr>,
               \<lparr>tube_id = 2, balls = [Color ''green'', Color ''pink''], capacity = 4\<rparr>,
               \<lparr>tube_id = 3, balls = [Color ''pink'', Color ''red''], capacity = 4\<rparr>],
      moves = 40, minMoves = Some 8,
      stars = [''1'' \<mapsto> 18, ''2'' \<mapsto> 13, ''3'' \<mapsto> 9],
      desiredLevel = Some 2\<rparr>"

text \<open>A level definition with an empty array of tubes.\<close>

definition emptyLevel :: levelData where
  "emptyLevel =
     \<lparr>level_id = Some 7, level_tubes = Some [], level_colors = Some [Color ''red''],
      level_minMoves = Some 1,
      level_stars = [''1'' \<mapsto> 3, ''2'' \<mapsto> 2, ''3'' \<mapsto> 1],
      level_desiredLevel = None\<rparr>"

section \<open>The win rule as the specification words it\<close>

text \<open>
  The target fill in the words of the specification: the level's \<^verbatim>\<open>desiredLevel\<close>,
  defaulting to 2 if absent; and the count-based win rule over it. Both are for
  comparison with \<open>allTubesAtDesiredLevel\<close>, which is the code.
\<close>

definition targetFill_spec :: "gameState \<Rightarrow> int" where
  "targetFill_spec gs = (case desiredLevel gs of None \<Rightarrow> 2 | Some d \<Rightarrow> d)"

definition checkWinCondition_spec :: "gameState \<Rightarrow> bool" where
  "checkWinCondition_spec gs =
     list_all (\<lambda>tube. int (length (balls tube)) = targetFill_spec gs) (tubes gs)"

section \<open>Auxiliary lemmas\<close>

lemma findTube_Some:
  "findTube x ts = Some i \<Longrightarrow> i < length ts \<and> tube_id (ts ! i) = x"
proof (induction ts arbitrary: i)
  case Nil
  then show ?case by simp
next
  case (Cons t ts)
  then show ?case by (auto split: if_splits)
qed

lemma valid_indices:
  assumes "findTube f ts = Some i" "findTube t ts = Some j"
  shows "i < length ts" "j < length ts" "tube_id (ts ! i) = f" "tube_id (ts ! j) = t"
  using assms findTube_Some by blast+

lemma pop_nonempty: "xs \<noteq> [] \<Longrightarrow> pop xs = (last xs, butlast xs)"
  by (cases xs) simp_all

lemma moveBall_distinct:
  assumes "i \<noteq> j" "balls (ts ! i) \<noteq> []"
  shows "moveBall i j ts =
         ts[i := (ts ! i)\<lparr>balls := butlast (balls (ts ! i))\<rparr>,
            j := (ts ! j)\<lparr>balls := balls (ts ! j) @ [last (balls (ts ! i))]\<rparr>]"
  using assms by (simp add: moveBall_def pop_nonempty push_def)

lemma moveBall_same:
  assumes "i < length ts" "balls (ts ! i) \<noteq> []"
  shows "moveBall i i ts = ts"
  using assms by (simp add: moveBall_def pop_nonempty push_def)

lemma moveBall_length: "length (moveBall i j ts) = length ts"
  by (simp add: moveBall_def Let_def split: prod.splits)

lemma list_update_twice:
  "i \<noteq> j \<Longrightarrow> ts[i := a, j := b, i := c, j := d] = ts[i := c, j := d]"
  by (metis list_update_overwrite list_update_swap)

text \<open>The loop is the body iterated once for every counter value below the bound.\<close>

lemma pourLoop_funpow:
  "pourLoop i b src dst ts = ((moveBall src dst) ^^ (nat \<lceil>b\<rceil> - i)) ts"
proof (induction i b src dst ts rule: pourLoop.induct)
  case (1 i b src dst ts)
  show ?case
  proof (cases "of_nat i < b")
    case True
    then have "int i < \<lceil>b\<rceil>" by (simp add: less_ceiling_iff)
    then have "nat \<lceil>b\<rceil> - i = Suc (nat \<lceil>b\<rceil> - Suc i)" by simp
    with True "1.IH" show ?thesis
      by (subst pourLoop.simps) (simp add: funpow_swap1)
  next
    case False
    then have "\<not> int i < \<lceil>b\<rceil>" by (simp add: less_ceiling_iff)
    then have "nat \<lceil>b\<rceil> - i = 0" by simp
    with False show ?thesis
      by (subst pourLoop.simps) simp
  qed
qed

text \<open>Pouring \<open>n\<close> balls, one at a time, when the source has that many.\<close>

lemma moveBall_funpow:
  assumes "i \<noteq> j" "i < length ts" "j < length ts" "n \<le> length (balls (ts ! i))"
  shows "((moveBall i j) ^^ n) ts =
         ts[i := (ts ! i)\<lparr>balls := take (length (balls (ts ! i)) - n) (balls (ts ! i))\<rparr>,
            j := (ts ! j)\<lparr>balls := balls (ts ! j)
                     @ rev (drop (length (balls (ts ! i)) - n) (balls (ts ! i)))\<rparr>]"
  using assms
proof (induction n arbitrary: ts)
  case 0
  then show ?case by (simp add: list_update_swap)
next
  case (Suc n)
  let ?src = "balls (ts ! i)"
  let ?dst = "balls (ts ! j)"
  let ?ts' = "moveBall i j ts"
  from Suc.prems have ne: "?src \<noteq> []" by auto
  have mb: "?ts' = ts[i := (ts ! i)\<lparr>balls := butlast ?src\<rparr>,
                      j := (ts ! j)\<lparr>balls := ?dst @ [last ?src]\<rparr>]"
    using moveBall_distinct[OF Suc.prems(1) ne] .
  have si: "balls (?ts' ! i) = butlast ?src" using Suc.prems by (simp add: mb)
  have sj: "balls (?ts' ! j) = ?dst @ [last ?src]" using Suc.prems by (simp add: mb)
  have ih: "((moveBall i j) ^^ n) ?ts' =
      ?ts'[i := (?ts' ! i)\<lparr>balls := take (length (balls (?ts' ! i)) - n) (balls (?ts' ! i))\<rparr>,
           j := (?ts' ! j)\<lparr>balls := balls (?ts' ! j)
                     @ rev (drop (length (balls (?ts' ! i)) - n) (balls (?ts' ! i)))\<rparr>]"
    using Suc.prems by (intro Suc.IH) (simp_all add: moveBall_length si)
  have t: "take (length (butlast ?src) - n) (butlast ?src) = take (length ?src - Suc n) ?src"
    using ne by (simp add: take_butlast)
  have d: "[last ?src] @ rev (drop (length (butlast ?src) - n) (butlast ?src))
           = rev (drop (length ?src - Suc n) ?src)"
  proof -
    have "drop (length ?src - Suc n) ?src = drop (length ?src - Suc n) (butlast ?src @ [last ?src])"
      using ne by simp
    also have "\<dots> = drop (length ?src - Suc n) (butlast ?src) @ [last ?src]"
      by simp
    finally show ?thesis by simp
  qed
  have "((moveBall i j) ^^ Suc n) ts = ((moveBall i j) ^^ n) ?ts'"
    by (simp add: funpow_swap1)
  also have "\<dots> = ts[i := (ts ! i)\<lparr>balls := take (length ?src - Suc n) ?src\<rparr>,
                     j := (ts ! j)\<lparr>balls := ?dst @ rev (drop (length ?src - Suc n) ?src)\<rparr>]"
    apply (simp only: ih si sj t)
    using Suc.prems d
    apply (simp add: mb list_update_twice)
    done
  finally show ?case .
qed

lemma poured_le: "poured ts i j \<le> length (balls (ts ! i))"
proof -
  have "\<lceil>min (of_nat (length (balls (ts ! i))) :: rat)
              (capacity (ts ! j) - of_nat (length (balls (ts ! j))))\<rceil>
        \<le> \<lceil>(of_nat (length (balls (ts ! i))) :: rat)\<rceil>"
    by (intro ceiling_mono) simp
  then show ?thesis by (simp add: poured_def)
qed

lemma poured_integer:
  assumes "capacity (ts ! j) = of_int c"
  shows "poured ts i j = min (length (balls (ts ! i))) (nat (c - int (length (balls (ts ! j)))))"
proof -
  have "min (of_nat (length (balls (ts ! i))) :: rat)
            (capacity (ts ! j) - of_nat (length (balls (ts ! j))))
        = of_int (min (int (length (balls (ts ! i)))) (c - int (length (balls (ts ! j)))))"
    by (simp add: assms min_def)
  then show ?thesis
    unfolding poured_def by (simp only: ceiling_of_int)
qed

lemma performMove_tubes:
  assumes "i \<noteq> j" "i < length (tubes gs)" "j < length (tubes gs)"
  shows "tubes (performMove i j gs) =
    (let ts = tubes gs; src = balls (ts ! i); dst = balls (ts ! j); k = poured ts i j
     in ts[i := (ts ! i)\<lparr>balls := take (length src - k) src\<rparr>,
           j := (ts ! j)\<lparr>balls := dst @ rev (drop (length src - k) src)\<rparr>])"
  using moveBall_funpow[OF assms poured_le[of "tubes gs" i j]]
  by (simp add: performMove_def Let_def pourLoop_funpow poured_def)

lemma handleLevelComplete_state [simp]:
  "currentGameState (handleLevelComplete g) = currentGameState g"
  by (simp add: handleLevelComplete_def Let_def)

lemma checkWinCondition_state [simp]:
  "currentGameState (checkWinCondition g) = currentGameState g"
  by (simp add: checkWinCondition_def)

lemma checkWinCondition_shape_state [simp]:
  "currentGameState (checkWinCondition_shape g) = currentGameState g"
  by (simp add: checkWinCondition_shape_def Let_def)

lemma deselectTube_state [simp]:
  "currentGameState (deselectTube g) = currentGameState g"
  by (simp add: deselectTube_def)

lemma isValidMove_Valid:
  "isValidMove a b = Valid \<longleftrightarrow>
     balls a \<noteq> [] \<and> tube_id a \<noteq> tube_id b \<and> of_nat (length (balls b)) < capacity b"
  by (simp add: isValidMove_def)

lemma isValidMove_single_Valid:
  "isValidMove_single a b = Valid \<longleftrightarrow>
     balls a \<noteq> [] \<and> of_nat (length (balls b)) < capacity b"
  by (simp add: isValidMove_single_def)

text \<open>A move attempt either moves, with the board it computes, or changes nothing.\<close>

lemma attemptMove_cases:
  "(\<exists>i j. findTube f (tubes (currentGameState g)) = Some i
       \<and> findTube t (tubes (currentGameState g)) = Some j
       \<and> isValidMove (tubes (currentGameState g) ! i) (tubes (currentGameState g) ! j) = Valid
       \<and> attemptMove f t g =
         (Moved, checkWinCondition
                   (deselectTube (g\<lparr>currentGameState := performMove i j (currentGameState g)\<rparr>))))
   \<or> (\<exists>r. r \<noteq> Moved \<and> attemptMove f t g = (r, g)
        \<and> \<not> (\<exists>i j. findTube f (tubes (currentGameState g)) = Some i
               \<and> findTube t (tubes (currentGameState g)) = Some j
               \<and> isValidMove (tubes (currentGameState g) ! i)
                     (tubes (currentGameState g) ! j) = Valid))"
  by (auto simp: attemptMove_def Let_def split: option.splits moveResult.splits)

lemma attemptMove_single_cases:
  "(\<exists>i j. findTube f (tubes (currentGameState g)) = Some i
       \<and> findTube t (tubes (currentGameState g)) = Some j
       \<and> isValidMove_single (tubes (currentGameState g) ! i)
             (tubes (currentGameState g) ! j) = Valid
       \<and> attemptMove_single f t g =
         (Moved, checkWinCondition_shape
                   (deselectTube (g\<lparr>currentGameState :=
                      performMove_single i j (currentGameState g)\<rparr>))))
   \<or> (\<exists>r. r \<noteq> Moved \<and> attemptMove_single f t g = (r, g)
        \<and> \<not> (\<exists>i j. findTube f (tubes (currentGameState g)) = Some i
               \<and> findTube t (tubes (currentGameState g)) = Some j
               \<and> isValidMove_single (tubes (currentGameState g) ! i)
                     (tubes (currentGameState g) ! j) = Valid))"
  by (auto simp: attemptMove_single_def Let_def split: option.splits moveResult.splits)

lemma sum_list_update_add:
  fixes xs :: "'a::comm_monoid_add list"
  shows "i < length xs \<Longrightarrow> sum_list (xs[i := x]) + xs ! i = sum_list xs + x"
proof (induction xs arbitrary: i)
  case Nil
  then show ?case by simp
next
  case (Cons y ys)
  show ?case
  proof (cases i)
    case 0
    then show ?thesis by (simp add: ac_simps)
  next
    case (Suc n)
    with Cons.prems have "sum_list (ys[n := x]) + ys ! n = sum_list ys + x"
      by (intro Cons.IH) simp
    with Suc show ?thesis by (simp add: add.assoc)
  qed
qed

lemma allBalls_sum: "allBalls ts = sum_list (map (\<lambda>t. mset (balls t)) ts)"
  by (simp add: allBalls_def mset_concat comp_def)

lemma allBalls_update:
  assumes "i < length ts"
  shows "allBalls (ts[i := a]) + mset (balls (ts ! i)) = allBalls ts + mset (balls a)"
  using assms sum_list_update_add[of i "map (\<lambda>t. mset (balls t)) ts" "mset (balls a)"]
  by (simp add: allBalls_sum map_update)

lemma allBalls_update2:
  assumes "i \<noteq> j" "i < length ts" "j < length ts"
    and "mset (balls a) + mset (balls b) = mset (balls (ts ! i)) + mset (balls (ts ! j))"
  shows "allBalls (ts[i := a, j := b]) = allBalls ts"
proof -
  have 1: "allBalls (ts[i := a]) + mset (balls (ts ! i)) = allBalls ts + mset (balls a)"
    using allBalls_update[OF assms(2)] .
  have "allBalls (ts[i := a, j := b]) + mset (balls (ts[i := a] ! j))
        = allBalls (ts[i := a]) + mset (balls b)"
    using allBalls_update[of j "ts[i := a]" b] assms(3) by simp
  then have 2: "allBalls (ts[i := a, j := b]) + mset (balls (ts ! j))
        = allBalls (ts[i := a]) + mset (balls b)"
    using assms(1) by simp
  have "allBalls (ts[i := a, j := b]) + (mset (balls (ts ! i)) + mset (balls (ts ! j)))
        = allBalls ts + (mset (balls a) + mset (balls b))"
    using 1 2 by (simp add: ac_simps)
  with assms(4) show ?thesis by simp
qed

lemma performMove_allBalls:
  assumes "i \<noteq> j" "i < length (tubes gs)" "j < length (tubes gs)"
  shows "allBalls (tubes (performMove i j gs)) = allBalls (tubes gs)"
proof -
  let ?src = "balls (tubes gs ! i)"
  let ?k = "poured (tubes gs) i j"
  have "mset (take (length ?src - ?k) ?src) + mset (drop (length ?src - ?k) ?src) = mset ?src"
    by (metis append_take_drop_id mset_append)
  then show ?thesis
    unfolding performMove_tubes[OF assms] Let_def
    by (intro allBalls_update2[OF assms(1-3)]) (simp add: ac_simps)
qed

lemma capacityInvariant_update2:
  assumes "capacityInvariant ts"
    and "of_nat (length (balls a)) \<le> capacity a" "of_nat (length (balls b)) \<le> capacity b"
  shows "capacityInvariant (ts[i := a, j := b])"
proof -
  have "set (ts[i := a, j := b]) \<subseteq> insert b (insert a (set ts))"
    by (meson insert_mono order_trans set_update_subset_insert)
  with assms show ?thesis
    by (auto simp: capacityInvariant_def list_all_iff)
qed

lemma capacityInvariant_nth:
  "capacityInvariant ts \<Longrightarrow> i < length ts
     \<Longrightarrow> of_nat (length (balls (ts ! i))) \<le> capacity (ts ! i)"
  by (simp add: capacityInvariant_def list_all_length)

lemma integerCapacities_nth:
  "integerCapacities ts \<Longrightarrow> i < length ts
     \<Longrightarrow> capacity (ts ! i) = of_int \<lfloor>capacity (ts ! i)\<rfloor>"
  by (simp add: integerCapacities_def list_all_length)

text \<open>With a whole capacity of the destination the bulk pour keeps the invariant.\<close>

lemma performMove_capacity_integer:
  assumes "i \<noteq> j" "i < length (tubes gs)" "j < length (tubes gs)"
    and "of_nat (length (balls (tubes gs ! j))) < capacity (tubes gs ! j)"
    and "capacityInvariant (tubes gs)"
    and "capacity (tubes gs ! j) = of_int c"
  shows "capacityInvariant (tubes (performMove i j gs))"
proof -
  let ?ts = "tubes gs"
  let ?src = "balls (?ts ! i)"
  let ?dst = "balls (?ts ! j)"
  let ?k = "poured ?ts i j"
  have k: "?k = min (length ?src) (nat (c - int (length ?dst)))"
    by (rule poured_integer[OF assms(6)])
  from assms(4,6) have "int (length ?dst) < c"
    by (metis of_int_less_iff of_int_of_nat_eq)
  with k have "int (length ?dst) + int ?k \<le> c" by linarith
  then have "(of_int (int (length ?dst) + int ?k) :: rat) \<le> of_int c"
    by (simp only: of_int_le_iff)
  then have dst: "(of_nat (length ?dst + ?k) :: rat) \<le> capacity (?ts ! j)"
    by (simp add: assms(6))
  have "(of_nat (length ?src - ?k) :: rat) \<le> of_nat (length ?src)" by simp
  with capacityInvariant_nth[OF assms(5) assms(2)]
  have src: "(of_nat (length ?src - ?k) :: rat) \<le> capacity (?ts ! i)" by linarith
  have lt: "length (take (length ?src - ?k) ?src) = length ?src - ?k"
    by simp
  have ld: "length (?dst @ rev (drop (length ?src - ?k) ?src)) = length ?dst + ?k"
    using poured_le[of ?ts i j] by simp
  show ?thesis
    unfolding performMove_tubes[OF assms(1-3)] Let_def
  proof (intro capacityInvariant_update2[OF assms(5)])
    show "of_nat (length (balls ((?ts ! i)\<lparr>balls := take (length ?src - ?k) ?src\<rparr>)))
            \<le> capacity ((?ts ! i)\<lparr>balls := take (length ?src - ?k) ?src\<rparr>)"
      using src by (simp add: lt del: length_take)
    show "of_nat (length (balls ((?ts ! j)\<lparr>balls := ?dst @ rev (drop (length ?src - ?k) ?src)\<rparr>)))
            \<le> capacity ((?ts ! j)\<lparr>balls := ?dst @ rev (drop (length ?src - ?k) ?src)\<rparr>)"
      using dst by (simp add: ld del: length_append length_rev length_drop)
  qed
qed

lemma performMove_single_tubes:
  assumes "i < length (tubes gs)" "balls (tubes gs ! i) \<noteq> []"
  shows "tubes (performMove_single i j gs) =
    (if i = j then tubes gs
     else (tubes gs)[i := (tubes gs ! i)\<lparr>balls := butlast (balls (tubes gs ! i))\<rparr>,
            j := (tubes gs ! j)\<lparr>balls := balls (tubes gs ! j) @ [last (balls (tubes gs ! i))]\<rparr>])"
proof (cases "i = j")
  case True
  with assms have "moveBall i j (tubes gs) = tubes gs"
    by (simp add: moveBall_same)
  with True show ?thesis by (simp add: performMove_single_def)
next
  case False
  with assms show ?thesis
    by (simp add: performMove_single_def moveBall_distinct)
qed

lemma performMove_single_allBalls:
  assumes "i < length (tubes gs)" "j < length (tubes gs)" "balls (tubes gs ! i) \<noteq> []"
  shows "allBalls (tubes (performMove_single i j gs)) = allBalls (tubes gs)"
proof (cases "i = j")
  case True
  then show ?thesis using assms by (simp add: performMove_single_tubes)
next
  case False
  have "mset (butlast (balls (tubes gs ! i))) + {#last (balls (tubes gs ! i))#}
        = mset (balls (tubes gs ! i))"
    using assms(3) by (metis append_butlast_last_id mset.simps(1) mset.simps(2) mset_append)
  then show ?thesis
    using False assms
    by (simp add: performMove_single_tubes allBalls_update2 ac_simps)
qed

text \<open>With a whole capacity of the destination the one-ball move keeps the invariant.\<close>

lemma performMove_single_capacity_integer:
  assumes "i < length (tubes gs)" "j < length (tubes gs)" "balls (tubes gs ! i) \<noteq> []"
    and "of_nat (length (balls (tubes gs ! j))) < capacity (tubes gs ! j)"
    and "capacityInvariant (tubes gs)"
    and "capacity (tubes gs ! j) = of_int c"
  shows "capacityInvariant (tubes (performMove_single i j gs))"
proof (cases "i = j")
  case True
  then show ?thesis using assms by (simp add: performMove_single_tubes)
next
  case False
  let ?ts = "tubes gs"
  from assms(4,6) have "int (length (balls (?ts ! j))) < c"
    by (metis of_int_less_iff of_int_of_nat_eq)
  then have "int (length (balls (?ts ! j))) + 1 \<le> c" by simp
  then have "(of_int (int (length (balls (?ts ! j))) + 1) :: rat) \<le> of_int c"
    by (simp only: of_int_le_iff)
  then have dst: "(of_nat (length (balls (?ts ! j))) :: rat) + 1 \<le> capacity (?ts ! j)"
    by (simp add: assms(6))
  have "(of_nat (length (balls (?ts ! i)) - 1) :: rat) \<le> of_nat (length (balls (?ts ! i)))"
    by simp
  with capacityInvariant_nth[OF assms(5) assms(1)]
  have src: "(of_nat (length (balls (?ts ! i)) - 1) :: rat) \<le> capacity (?ts ! i)" by linarith
  show ?thesis
    unfolding performMove_single_tubes[OF assms(1,3)]
    using False src dst
    by (simp del: list_update_overwrite) (intro capacityInvariant_update2[OF assms(5)], auto)
qed

lemma performMove_moves [simp]: "moves (performMove i j gs) = js_increment (moves gs)"
  by (simp add: performMove_def Let_def)

lemma performMove_single_moves [simp]:
  "moves (performMove_single i j gs) = js_increment (moves gs)"
  by (simp add: performMove_single_def)

lemma js_increment_exact: "0 \<le> m \<Longrightarrow> m < 2 ^ 53 \<Longrightarrow> js_increment m = m + 1"
  by (simp add: js_increment_def)

lemma handleTubeClicks_complete:
  "gameComplete s \<Longrightarrow> handleTubeClicks cs s = s"
  by (induction cs) (simp_all add: handleTubeClick_def)

lemma validateLevel_creates:
  "validateLevel l \<Longrightarrow> \<exists>gs. createGameLevel l = Some gs \<and> moves gs = 0"
  by (auto simp: validateLevel_def createGameLevel_def split: option.splits)

lemma allTubesAtDesiredLevel_iff:
  "allTubesAtDesiredLevel gs \<longleftrightarrow>
     (\<forall>tube \<in> set (tubes gs). int (length (balls tube)) = js_or_default (desiredLevel gs) 2)"
  by (simp add: allTubesAtDesiredLevel_def list_all_iff)

lemma allTubesAtDesiredLevel_counts:
  "allTubesAtDesiredLevel gs \<longleftrightarrow>
     list_all (\<lambda>n. int n = js_or_default (desiredLevel gs) 2)
       (map (\<lambda>tube. length (balls tube)) (tubes gs))"
  by (simp add: allTubesAtDesiredLevel_def list_all_iff)

text \<open>Evaluating the loop on a concrete board.\<close>

lemma pourLoop_step:
  "of_nat i < b \<Longrightarrow> pourLoop i b src dst ts = pourLoop (Suc i) b src dst (moveBall src dst ts)"
  by (subst pourLoop.simps) simp

lemma pourLoop_stop: "\<not> of_nat i < b \<Longrightarrow> pourLoop i b src dst ts = ts"
  by (subst pourLoop.simps) simp

lemma winningGame_move: "attemptMove 0 1 winningGame = (Moved, wonGame)"
  by (simp add: winningGame_def wonGame_def attemptMove_def isValidMove_def performMove_def
      Let_def pourLoop_step pourLoop_stop moveBall_def push_def deselectTube_def
      checkWinCondition_def allTubesAtDesiredLevel_def js_or_default_def
      handleLevelComplete_def starsEarned_def js_le_def js_increment_def)

lemma attemptMove_Moved_iff:
  "fst (attemptMove f t g) = Moved \<longleftrightarrow>
     (\<exists>i j. findTube f (tubes (currentGameState g)) = Some i
          \<and> findTube t (tubes (currentGameState g)) = Some j
          \<and> balls (tubes (currentGameState g) ! i) \<noteq> [] \<and> f \<noteq> t
          \<and> of_nat (length (balls (tubes (currentGameState g) ! j)))
               < capacity (tubes (currentGameState g) ! j))"
proof -
  let ?ts = "tubes (currentGameState g)"
  have "fst (attemptMove f t g) = Moved \<longleftrightarrow>
          (\<exists>i j. findTube f ?ts = Some i \<and> findTube t ?ts = Some j
                \<and> isValidMove (?ts ! i) (?ts ! j) = Valid)"
    using attemptMove_cases[of f g t] by auto
  also have "\<dots> \<longleftrightarrow>
          (\<exists>i j. findTube f ?ts = Some i \<and> findTube t ?ts = Some j
                \<and> balls (?ts ! i) \<noteq> [] \<and> f \<noteq> t
                \<and> of_nat (length (balls (?ts ! j))) < capacity (?ts ! j))"
    using findTube_Some by (auto simp: isValidMove_Valid)
  finally show ?thesis .
qed

lemma attemptMove_single_Moved_iff:
  "fst (attemptMove_single f t g) = Moved \<longleftrightarrow>
     (\<exists>i j. findTube f (tubes (currentGameState g)) = Some i
          \<and> findTube t (tubes (currentGameState g)) = Some j
          \<and> balls (tubes (currentGameState g) ! i) \<noteq> []
          \<and> of_nat (length (balls (tubes (currentGameState g) ! j)))
               < capacity (tubes (currentGameState g) ! j))"
  using attemptMove_single_cases[of f g t] by (auto simp: isValidMove_single_Valid)

lemma attemptMove_moves:
  "moves (currentGameState (snd (attemptMove f t g))) =
     (if fst (attemptMove f t g) = Moved then js_increment (moves (currentGameState g))
      else moves (currentGameState g))"
  using attemptMove_cases[of f g t] by auto

lemma attemptMove_single_moves:
  "moves (currentGameState (snd (attemptMove_single f t g))) =
     (if fst (attemptMove_single f t g) = Moved then js_increment (moves (currentGameState g))
      else moves (currentGameState g))"
  using attemptMove_single_cases[of f g t] by auto

lemma pourGame_move:
  "attemptMove 0 1 pourGame =
     (Moved, pourGame\<lparr>currentGameState := (currentGameState pourGame)
        \<lparr>tubes := [\<lparr>tube_id = 0, balls = [Color ''red''], capacity = 4\<rparr>,
                   \<lparr>tube_id = 1, balls = [Color ''yellow'', Color ''yellow'',
                                          Color ''blue'', Color ''green''], capacity = 4\<rparr>,
                   \<lparr>tube_id = 2, balls = [], capacity = 4\<rparr>],
         moves := 1\<rparr>, selectedTube := None\<rparr>)"
  by (simp add: pourGame_def attemptMove_def isValidMove_def performMove_def Let_def
      pourLoop_step pourLoop_stop moveBall_def push_def deselectTube_def checkWinCondition_def
      allTubesAtDesiredLevel_def js_or_default_def js_increment_def)

text \<open>The bulk pour in closed form, for any capacity.\<close>

lemma bulk_pour_any_capacity:
  assumes "attemptMove fromTubeId toTubeId g = (Moved, g')"
    and "findTube fromTubeId (tubes (currentGameState g)) = Some i"
    and "findTube toTubeId (tubes (currentGameState g)) = Some j"
  shows "(let ts = tubes (currentGameState g); src = balls (ts ! i); dst = balls (ts ! j);
              k = poured ts i j
          in 1 \<le> k \<and> k \<le> length src
           \<and> tubes (currentGameState g') =
               ts[i := (ts ! i)\<lparr>balls := take (length src - k) src\<rparr>,
                  j := (ts ! j)\<lparr>balls := dst @ rev (drop (length src - k) src)\<rparr>])"
proof -
  let ?gs = "currentGameState g"
  let ?ts = "tubes ?gs"
  from attemptMove_cases[of fromTubeId g toTubeId] assms
  have v: "isValidMove (?ts ! i) (?ts ! j) = Valid"
    and r: "g' = checkWinCondition (deselectTube (g\<lparr>currentGameState := performMove i j ?gs\<rparr>))"
    by auto
  from v have ne: "balls (?ts ! i) \<noteq> []" and ij: "i \<noteq> j"
    and room: "of_nat (length (balls (?ts ! j))) < capacity (?ts ! j)"
    by (auto simp: isValidMove_Valid)
  note idx = valid_indices[OF assms(2,3)]
  have ts': "tubes (currentGameState g') = tubes (performMove i j ?gs)"
    by (simp add: r)
  let ?x = "min (of_nat (length (balls (?ts ! i))) :: rat)
                (capacity (?ts ! j) - of_nat (length (balls (?ts ! j))))"
  from ne have "(0::rat) < of_nat (length (balls (?ts ! i)))" by simp
  with room have "0 < ?x" by simp
  then have "0 < \<lceil>?x\<rceil>" by (simp only: less_ceiling_iff of_int_0)
  then have "1 \<le> nat \<lceil>?x\<rceil>" by linarith
  then have k1: "1 \<le> poured ?ts i j" by (simp only: poured_def)
  show ?thesis
    unfolding Let_def ts' performMove_tubes[OF ij idx(1,2)]
    using k1 poured_le[of ?ts i j] by (simp add: Let_def)
qed

text \<open>With a whole capacity of the destination the bulk pour moves exactly the minimum.\<close>

lemma bulk_pour_integer_capacity:
  assumes "attemptMove fromTubeId toTubeId g = (Moved, g')"
    and "findTube fromTubeId (tubes (currentGameState g)) = Some i"
    and "findTube toTubeId (tubes (currentGameState g)) = Some j"
    and "capacity (tubes (currentGameState g) ! j) = of_int c"
  shows "(let ts = tubes (currentGameState g); ts' = tubes (currentGameState g');
              src = balls (ts ! i); dst = balls (ts ! j);
              k = min (length src) (nat (c - int (length dst)))
          in 1 \<le> k
           \<and> balls (ts' ! i) = take (length src - k) src
           \<and> balls (ts' ! j) = dst @ rev (drop (length src - k) src)
           \<and> length (balls (ts' ! i)) + k = length src
           \<and> length (balls (ts' ! j)) = length dst + k
           \<and> ts' = ts[i := (ts ! i)\<lparr>balls := take (length src - k) src\<rparr>,
                       j := (ts ! j)\<lparr>balls := dst @ rev (drop (length src - k) src)\<rparr>])"
proof -
  let ?ts = "tubes (currentGameState g)"
  note idx = valid_indices[OF assms(2,3)]
  from attemptMove_cases[of fromTubeId g toTubeId] assms(1-3)
  have "isValidMove (?ts ! i) (?ts ! j) = Valid" by auto
  then have ij: "i \<noteq> j" by (auto simp: isValidMove_Valid)
  from bulk_pour_any_capacity[OF assms(1-3)] poured_integer[OF assms(4), of i]
  show ?thesis
    unfolding Let_def using ij idx(1,2) by simp
qed

text \<open>With whole capacities every move attempt keeps the capacity invariant.\<close>

lemma capacity_invariant_integer:
  assumes "capacityInvariant (tubes (currentGameState g))"
    and "integerCapacities (tubes (currentGameState g))"
  shows "capacityInvariant (tubes (currentGameState (snd (attemptMove f t g))))"
    and "capacityInvariant (tubes (currentGameState (snd (attemptMove_single f t g))))"
proof -
  let ?gs = "currentGameState g"
  show "capacityInvariant (tubes (currentGameState (snd (attemptMove f t g))))"
    using attemptMove_cases[of f g t]
  proof (elim disjE exE conjE)
    fix i j
    assume a: "findTube f (tubes ?gs) = Some i" "findTube t (tubes ?gs) = Some j"
      and v: "isValidMove (tubes ?gs ! i) (tubes ?gs ! j) = Valid"
      and r: "attemptMove f t g =
         (Moved, checkWinCondition (deselectTube (g\<lparr>currentGameState := performMove i j ?gs\<rparr>)))"
    from v have "i \<noteq> j" "of_nat (length (balls (tubes ?gs ! j))) < capacity (tubes ?gs ! j)"
      by (auto simp: isValidMove_Valid)
    with valid_indices[OF a] assms(1) integerCapacities_nth[OF assms(2), of j] show ?thesis
      by (simp add: r performMove_capacity_integer)
  next
    fix r assume "attemptMove f t g = (r, g)"
    with assms(1) show ?thesis by simp
  qed
  show "capacityInvariant (tubes (currentGameState (snd (attemptMove_single f t g))))"
    using attemptMove_single_cases[of f g t]
  proof (elim disjE exE conjE)
    fix i j
    assume a: "findTube f (tubes ?gs) = Some i" "findTube t (tubes ?gs) = Some j"
      and v: "isValidMove_single (tubes ?gs ! i) (tubes ?gs ! j) = Valid"
      and r: "attemptMove_single f t g =
         (Moved, checkWinCondition_shape
                   (deselectTube (g\<lparr>currentGameState := performMove_single i j ?gs\<rparr>)))"
    from v have "balls (tubes ?gs ! i) \<noteq> []"
        "of_nat (length (balls (tubes ?gs ! j))) < capacity (tubes ?gs ! j)"
      by (auto simp: isValidMove_single_Valid)
    with valid_indices[OF a] assms(1) integerCapacities_nth[OF assms(2), of j] show ?thesis
      by (simp add: r performMove_single_capacity_integer)
  next
    fix r assume "attemptMove_single f t g = (r, g)"
    with assms(1) show ?thesis by simp
  qed
qed

lemma halfGame_pour:
  "attemptMove 0 1 halfGame =
     (Moved, halfGame\<lparr>currentGameState := (currentGameState halfGame)
        \<lparr>tubes := [\<lparr>tube_id = 0, balls = [], capacity = 4\<rparr>,
                   \<lparr>tube_id = 1, balls = [Color ''blue'', Color ''green'', Color ''red''],
                    capacity = 5 / 2\<rparr>,
                   \<lparr>tube_id = 2, balls = [Color ''yellow'', Color ''yellow''],
                    capacity = 5 / 2\<rparr>],
         moves := 1\<rparr>\<rparr>)"
  by (simp add: halfGame_def attemptMove_def isValidMove_def performMove_def Let_def
      pourLoop_step pourLoop_stop moveBall_def push_def deselectTube_def checkWinCondition_def
      allTubesAtDesiredLevel_def js_or_default_def js_increment_def)

lemma halfGame_single:
  "attemptMove_single 0 2 halfGame =
     (Moved, halfGame\<lparr>currentGameState := (currentGameState halfGame)
        \<lparr>tubes := [\<lparr>tube_id = 0, balls = [Color ''red'', Color ''green''], capacity = 4\<rparr>,
                   \<lparr>tube_id = 1, balls = [], capacity = 5 / 2\<rparr>,
                   \<lparr>tube_id = 2, balls = [Color ''yellow'', Color ''yellow'', Color ''blue''],
                    capacity = 5 / 2\<rparr>],
         moves := 1\<rparr>\<rparr>)"
  by (simp add: halfGame_def attemptMove_single_def isValidMove_single_def
      performMove_single_def Let_def moveBall_def push_def deselectTube_def
      checkWinCondition_shape_def js_increment_def js_ge_def)

lemma halfLevel_loads:
  "validateLevel (Some halfLevel)
   \<and> createGameLevel (Some halfLevel) = Some (currentGameState halfGame)"
  by (simp add: validateLevel_def createGameLevel_def halfLevel_def halfGame_def)

section \<open>The win check\<close>

text \<open>
  C1, as stated, fails when \<^verbatim>\<open>desiredLevel\<close> is 0: the specification's target is then
  0 and its rule holds for a board of empty tubes, but \<^verbatim>\<open>desiredLevel || 2\<close> is 2 and
  the code's test fails.
\<close>

theorem win_check_zero_target_counterexample:
  "checkWinCondition_spec zeroTargetState \<and> \<not> allTubesAtDesiredLevel zeroTargetState"
  by (simp add: checkWinCondition_spec_def targetFill_spec_def allTubesAtDesiredLevel_def
      js_or_default_def zeroTargetState_def)

text \<open>
  C1, amended. The win check of the first copy succeeds (and then calls
  \<^verbatim>\<open>handleLevelComplete\<close>, which marks the game complete) if and only if every tube
  holds exactly the target number of balls, where the target is \<^verbatim>\<open>desiredLevel\<close> when
  that is present and not 0, and 2 otherwise. The test depends only on the ball counts
  of the tubes and on \<^verbatim>\<open>desiredLevel\<close>: two boards with the same counts and the same
  \<^verbatim>\<open>desiredLevel\<close> give the same result, whatever their colours and move counts.
\<close>

theorem win_check_counts:
  "(allTubesAtDesiredLevel gs \<longleftrightarrow>
      (\<forall>tube \<in> set (tubes gs).
         int (length (balls tube)) =
           (case desiredLevel gs of None \<Rightarrow> 2 | Some d \<Rightarrow> if d = 0 then 2 else d)))
   \<and> checkWinCondition g =
       (if allTubesAtDesiredLevel (currentGameState g) then handleLevelComplete g else g)
   \<and> (gameComplete (checkWinCondition g) \<longleftrightarrow>
        gameComplete g \<or> allTubesAtDesiredLevel (currentGameState g))
   \<and> (map (\<lambda>tube. length (balls tube)) (tubes gs) = map (\<lambda>tube. length (balls tube)) (tubes gs')
        \<and> desiredLevel gs = desiredLevel gs'
        \<longrightarrow> allTubesAtDesiredLevel gs = allTubesAtDesiredLevel gs')"
proof (intro conjI impI)
  show "allTubesAtDesiredLevel gs \<longleftrightarrow>
      (\<forall>tube \<in> set (tubes gs).
         int (length (balls tube)) =
           (case desiredLevel gs of None \<Rightarrow> 2 | Some d \<Rightarrow> if d = 0 then 2 else d))"
    by (simp add: allTubesAtDesiredLevel_iff js_or_default_def)
  show "checkWinCondition g =
       (if allTubesAtDesiredLevel (currentGameState g) then handleLevelComplete g else g)"
    by (simp add: checkWinCondition_def)
  show "gameComplete (checkWinCondition g) \<longleftrightarrow>
        gameComplete g \<or> allTubesAtDesiredLevel (currentGameState g)"
    by (simp add: checkWinCondition_def handleLevelComplete_def Let_def)
next
  assume "map (\<lambda>tube. length (balls tube)) (tubes gs) = map (\<lambda>tube. length (balls tube)) (tubes gs')
        \<and> desiredLevel gs = desiredLevel gs'"
  then show "allTubesAtDesiredLevel gs = allTubesAtDesiredLevel gs'"
    by (simp add: allTubesAtDesiredLevel_counts)
qed

text \<open>
  Four tubes with counts 2, 2, 2, 2 and target 2: the test holds, also with the colours
  mixed and another move count.
\<close>

theorem win_check_counts_witness:
  "allTubesAtDesiredLevel fourTubes
   \<and> map (\<lambda>tube. length (balls tube)) (tubes fourTubes) = [2, 2, 2, 2]
   \<and> map (\<lambda>tube. length (balls tube)) (tubes fourTubesMixed) = [2, 2, 2, 2]
   \<and> desiredLevel fourTubes = desiredLevel fourTubesMixed
   \<and> moves fourTubes \<noteq> moves fourTubesMixed
   \<and> allTubesAtDesiredLevel fourTubesMixed"
proof -
  note t = win_check_counts[of fourTubes exampleGame fourTubesMixed]
  have c1: "map (\<lambda>tube. length (balls tube)) (tubes fourTubes) = [2, 2, 2, 2]"
    and c2: "map (\<lambda>tube. length (balls tube)) (tubes fourTubesMixed) = [2, 2, 2, 2]"
    and d: "desiredLevel fourTubes = desiredLevel fourTubesMixed"
    and m: "moves fourTubes \<noteq> moves fourTubesMixed"
    by (simp_all add: fourTubes_def fourTubesMixed_def)
  have "\<forall>tube \<in> set (tubes fourTubes). int (length (balls tube)) =
          (case desiredLevel fourTubes of None \<Rightarrow> 2 | Some d \<Rightarrow> if d = 0 then 2 else d)"
    by (simp add: fourTubes_def)
  with t have w: "allTubesAtDesiredLevel fourTubes" by blast
  have pre: "map (\<lambda>tube. length (balls tube)) (tubes fourTubes)
              = map (\<lambda>tube. length (balls tube)) (tubes fourTubesMixed)"
    using c1 c2 by (simp only:)
  from t pre d have "allTubesAtDesiredLevel fourTubes = allTubesAtDesiredLevel fourTubesMixed"
    by blast
  with w c1 c2 d m show ?thesis by simp
qed

section \<open>Move count\<close>

text \<open>
  C4, as stated, fails at a move count of \<open>2 ^ 53\<close>: the pour goes through and changes
  the tubes, in both copies, but \<^verbatim>\<open>moves++\<close> leaves the count as it is.
\<close>

theorem moveCount_saturates_counterexample:
  "fst (attemptMove 0 1 maxMovesGame) = Moved
   \<and> tubes (currentGameState (snd (attemptMove 0 1 maxMovesGame)))
       \<noteq> tubes (currentGameState maxMovesGame)
   \<and> moves (currentGameState (snd (attemptMove 0 1 maxMovesGame)))
       = moves (currentGameState maxMovesGame)
   \<and> fst (attemptMove_single 0 1 maxMovesGame) = Moved
   \<and> moves (currentGameState (snd (attemptMove_single 0 1 maxMovesGame)))
       = moves (currentGameState maxMovesGame)"
  by (simp add: maxMovesGame_def pourGame_def attemptMove_def attemptMove_single_def
      isValidMove_def isValidMove_single_def performMove_def performMove_single_def Let_def
      pourLoop_step pourLoop_stop moveBall_def push_def deselectTube_def checkWinCondition_def
      checkWinCondition_shape_def allTubesAtDesiredLevel_def js_or_default_def
      js_increment_def js_ge_def)

text \<open>
  C4, amended. On a board whose move count is at least 0 and below \<open>2 ^ 53\<close>, a move
  request goes through exactly when both ids resolve to tubes, the source is not empty
  and the destination holds fewer balls than its capacity (in the bulk-pour copy also:
  the two ids differ). A request that goes through adds exactly 1 to the move count,
  whatever the number of balls poured, and every other request leaves the move count
  as it is. This holds for the bulk pour and for the one-ball move.
\<close>

theorem moveCount_step:
  assumes "0 \<le> moves (currentGameState g)" and "moves (currentGameState g) < 2 ^ 53"
  shows "(let ts = tubes (currentGameState g);
              accepted = (\<exists>i j. findTube f ts = Some i \<and> findTube t ts = Some j
                            \<and> balls (ts ! i) \<noteq> [] \<and> f \<noteq> t
                            \<and> of_nat (length (balls (ts ! j))) < capacity (ts ! j));
              accepted_single = (\<exists>i j. findTube f ts = Some i \<and> findTube t ts = Some j
                            \<and> balls (ts ! i) \<noteq> []
                            \<and> of_nat (length (balls (ts ! j))) < capacity (ts ! j))
          in (fst (attemptMove f t g) = Moved \<longleftrightarrow> accepted)
           \<and> moves (currentGameState (snd (attemptMove f t g))) =
               (if accepted then moves (currentGameState g) + 1 else moves (currentGameState g))
           \<and> (fst (attemptMove_single f t g) = Moved \<longleftrightarrow> accepted_single)
           \<and> moves (currentGameState (snd (attemptMove_single f t g))) =
               (if accepted_single then moves (currentGameState g) + 1
                else moves (currentGameState g)))"
proof -
  have inc: "js_increment (moves (currentGameState g)) = moves (currentGameState g) + 1"
    using assms by (rule js_increment_exact)
  show ?thesis
    unfolding Let_def
    using attemptMove_Moved_iff[of f t g] attemptMove_single_Moved_iff[of f t g]
    by (simp only: attemptMove_moves attemptMove_single_moves inc)
qed

text \<open>
  A pour of two balls and a pour of one ball each add 1; a full destination and an
  unknown tube id add nothing.
\<close>

theorem moveCount_step_witness:
  "0 \<le> moves (currentGameState pourGame) \<and> moves (currentGameState pourGame) < 2 ^ 53
   \<and> fst (attemptMove 0 1 pourGame) = Moved
   \<and> length (balls (tubes (currentGameState (snd (attemptMove 0 1 pourGame))) ! 1)) = 2 + 2
   \<and> moves (currentGameState (snd (attemptMove 0 1 pourGame))) = 0 + 1
   \<and> fst (attemptMove_single 0 1 pourGame) = Moved
   \<and> moves (currentGameState (snd (attemptMove_single 0 1 pourGame))) = 0 + 1
   \<and> fst (attemptMove 0 1 winningGame) = Moved
   \<and> length (balls (tubes (currentGameState (snd (attemptMove 0 1 winningGame))) ! 1)) = 1 + 1
   \<and> moves (currentGameState (snd (attemptMove 0 1 winningGame))) = 6 + 1
   \<and> fst (attemptMove 0 1 fullGame) = InvalidMove ''Destination tube is full''
   \<and> moves (currentGameState (snd (attemptMove 0 1 fullGame))) = 3
   \<and> fst (attemptMove 0 9 pourGame) = InvalidTubeIds
   \<and> moves (currentGameState (snd (attemptMove 0 9 pourGame))) = 0"
proof -
  have p: "0 \<le> moves (currentGameState pourGame)" "moves (currentGameState pourGame) < 2 ^ 53"
    and w: "0 \<le> moves (currentGameState winningGame)"
      "moves (currentGameState winningGame) < 2 ^ 53"
    and u: "0 \<le> moves (currentGameState fullGame)" "moves (currentGameState fullGame) < 2 ^ 53"
    by (simp_all add: pourGame_def winningGame_def fullGame_def)
  have m0: "moves (currentGameState pourGame) = 0" "moves (currentGameState winningGame) = 6"
    "moves (currentGameState fullGame) = 3"
    by (simp_all add: pourGame_def winningGame_def fullGame_def)
  have a1: "\<exists>i j. findTube 0 (tubes (currentGameState pourGame)) = Some i
              \<and> findTube 1 (tubes (currentGameState pourGame)) = Some j
              \<and> balls (tubes (currentGameState pourGame) ! i) \<noteq> [] \<and> (0::int) \<noteq> 1
              \<and> of_nat (length (balls (tubes (currentGameState pourGame) ! j)))
                   < capacity (tubes (currentGameState pourGame) ! j)"
    by (simp add: pourGame_def)
  have a2: "\<exists>i j. findTube 0 (tubes (currentGameState winningGame)) = Some i
              \<and> findTube 1 (tubes (currentGameState winningGame)) = Some j
              \<and> balls (tubes (currentGameState winningGame) ! i) \<noteq> [] \<and> (0::int) \<noteq> 1
              \<and> of_nat (length (balls (tubes (currentGameState winningGame) ! j)))
                   < capacity (tubes (currentGameState winningGame) ! j)"
    by (simp add: winningGame_def)
  have a3: "\<not> (\<exists>i j. findTube 0 (tubes (currentGameState fullGame)) = Some i
              \<and> findTube 1 (tubes (currentGameState fullGame)) = Some j
              \<and> balls (tubes (currentGameState fullGame) ! i) \<noteq> [] \<and> (0::int) \<noteq> 1
              \<and> of_nat (length (balls (tubes (currentGameState fullGame) ! j)))
                   < capacity (tubes (currentGameState fullGame) ! j))"
    by (simp add: fullGame_def)
  have a4: "\<not> (\<exists>i j. findTube 0 (tubes (currentGameState pourGame)) = Some i
              \<and> findTube 9 (tubes (currentGameState pourGame)) = Some j
              \<and> balls (tubes (currentGameState pourGame) ! i) \<noteq> [] \<and> (0::int) \<noteq> 9
              \<and> of_nat (length (balls (tubes (currentGameState pourGame) ! j)))
                   < capacity (tubes (currentGameState pourGame) ! j))"
    by (simp add: pourGame_def)
  from moveCount_step[OF p, of 0 1] a1 m0
  have r1: "fst (attemptMove 0 1 pourGame) = Moved"
    "moves (currentGameState (snd (attemptMove 0 1 pourGame))) = 0 + 1"
    "fst (attemptMove_single 0 1 pourGame) = Moved"
    "moves (currentGameState (snd (attemptMove_single 0 1 pourGame))) = 0 + 1"
    unfolding Let_def by auto
  from moveCount_step[OF w, of 0 1] a2 m0
  have r2: "fst (attemptMove 0 1 winningGame) = Moved"
    "moves (currentGameState (snd (attemptMove 0 1 winningGame))) = 6 + 1"
    unfolding Let_def by auto
  from moveCount_step[OF u, of 0 1] a3 m0
  have r3: "moves (currentGameState (snd (attemptMove 0 1 fullGame))) = 3"
    unfolding Let_def by auto
  from moveCount_step[OF p, of 0 9] a4 m0
  have r4: "moves (currentGameState (snd (attemptMove 0 9 pourGame))) = 0"
    unfolding Let_def by auto
  have l1: "length (balls (tubes (currentGameState (snd (attemptMove 0 1 pourGame))) ! 1)) = 2 + 2"
    by (simp add: pourGame_move)
  have l2: "length (balls (tubes (currentGameState (snd (attemptMove 0 1 winningGame))) ! 1))
              = 1 + 1"
    by (simp add: winningGame_move wonGame_def)
  have o3: "fst (attemptMove 0 1 fullGame) = InvalidMove ''Destination tube is full''"
    by (simp add: fullGame_def attemptMove_def isValidMove_def)
  have o4: "fst (attemptMove 0 9 pourGame) = InvalidTubeIds"
    by (simp add: pourGame_def attemptMove_def)
  from p r1 r2 r3 r4 l1 l2 o3 o4 show ?thesis by simp
qed

section \<open>Ball conservation\<close>

text \<open>
  C6. A move attempt, successful or rejected, leaves the multiset of all balls of the
  board as it was: balls pass from one tube to another and are neither created nor
  destroyed. This holds for the bulk pour and for the one-ball move.
\<close>

theorem ball_conservation:
  "allBalls (tubes (currentGameState (snd (attemptMove f t g))))
     = allBalls (tubes (currentGameState g))
   \<and> allBalls (tubes (currentGameState (snd (attemptMove_single f t g))))
     = allBalls (tubes (currentGameState g))"
proof
  let ?gs = "currentGameState g"
  show "allBalls (tubes (currentGameState (snd (attemptMove f t g)))) = allBalls (tubes ?gs)"
    using attemptMove_cases[of f g t]
  proof (elim disjE exE conjE)
    fix i j
    assume a: "findTube f (tubes ?gs) = Some i" "findTube t (tubes ?gs) = Some j"
      and v: "isValidMove (tubes ?gs ! i) (tubes ?gs ! j) = Valid"
      and r: "attemptMove f t g =
         (Moved, checkWinCondition (deselectTube (g\<lparr>currentGameState := performMove i j ?gs\<rparr>)))"
    from v have "i \<noteq> j"
      by (auto simp: isValidMove_Valid)
    with valid_indices[OF a] show ?thesis
      by (simp add: r performMove_allBalls)
  next
    fix r assume "attemptMove f t g = (r, g)"
    then show ?thesis by simp
  qed
  show "allBalls (tubes (currentGameState (snd (attemptMove_single f t g))))
          = allBalls (tubes ?gs)"
    using attemptMove_single_cases[of f g t]
  proof (elim disjE exE conjE)
    fix i j
    assume a: "findTube f (tubes ?gs) = Some i" "findTube t (tubes ?gs) = Some j"
      and v: "isValidMove_single (tubes ?gs ! i) (tubes ?gs ! j) = Valid"
      and r: "attemptMove_single f t g =
         (Moved, checkWinCondition_shape
                   (deselectTube (g\<lparr>currentGameState := performMove_single i j ?gs\<rparr>)))"
    from v have "balls (tubes ?gs ! i) \<noteq> []"
      by (simp add: isValidMove_single_Valid)
    with valid_indices[OF a] show ?thesis
      by (simp add: r performMove_single_allBalls)
  next
    fix r assume "attemptMove_single f t g = (r, g)"
    then show ?thesis by simp
  qed
qed

section \<open>Capacity invariant\<close>

text \<open>
  C5. The code does not keep the capacity invariant when a capacity is not a whole
  number. The level with two tubes of capacity 2.5 passes \<^verbatim>\<open>validateLevel\<close>, and on its
  board every tube holds at most as many balls as its capacity. The bulk pour of three
  balls into the empty tube of capacity 2.5 goes through and leaves three balls there;
  the one-ball move onto the two balls in the other tube of capacity 2.5 goes through
  and leaves three balls there. With whole capacities both copies keep the invariant
  (\<open>capacity_invariant_integer\<close>).
\<close>

theorem capacity_invariant_fractional_capacity:
  "validateLevel (Some halfLevel)
   \<and> createGameLevel (Some halfLevel) = Some (currentGameState halfGame)
   \<and> capacityInvariant (tubes (currentGameState halfGame))
   \<and> fst (attemptMove 0 1 halfGame) = Moved
   \<and> \<not> capacityInvariant (tubes (currentGameState (snd (attemptMove 0 1 halfGame))))
   \<and> fst (attemptMove_single 0 2 halfGame) = Moved
   \<and> \<not> capacityInvariant (tubes (currentGameState (snd (attemptMove_single 0 2 halfGame))))"
proof -
  have before: "capacityInvariant (tubes (currentGameState halfGame))"
    by (simp add: capacityInvariant_def halfGame_def)
  have bulk: "\<not> capacityInvariant (tubes (currentGameState (snd (attemptMove 0 1 halfGame))))"
    by (simp add: halfGame_pour capacityInvariant_def)
  have single:
    "\<not> capacityInvariant (tubes (currentGameState (snd (attemptMove_single 0 2 halfGame))))"
    by (simp add: halfGame_single capacityInvariant_def)
  from halfLevel_loads before bulk single show ?thesis
    by (simp add: halfGame_pour halfGame_single)
qed

section \<open>The bulk pour\<close>

text \<open>
  C2. The bulk pour does not move exactly
  \<open>min (length src) (capacity - length dst)\<close> balls when the capacity is not a whole
  number. On the board of the level with capacity 2.5 (which passes
  \<^verbatim>\<open>validateLevel\<close>), pouring three balls into the empty tube of capacity 2.5 goes
  through: the minimum is 2.5, the loop runs for \<open>i = 0, 1, 2\<close>, and all three balls
  arrive, in reversed order. With a whole capacity the pour moves exactly the minimum,
  popped from the top of the source and pushed on the destination
  (\<open>bulk_pour_integer_capacity\<close>).
\<close>

theorem bulk_pour_fractional_capacity:
  "validateLevel (Some halfLevel)
   \<and> createGameLevel (Some halfLevel) = Some (currentGameState halfGame)
   \<and> fst (attemptMove 0 1 halfGame) = Moved
   \<and> min (of_nat (length (balls (tubes (currentGameState halfGame) ! 0))))
         (capacity (tubes (currentGameState halfGame) ! 1)
            - of_nat (length (balls (tubes (currentGameState halfGame) ! 1)))) = 5 / 2
   \<and> balls (tubes (currentGameState (snd (attemptMove 0 1 halfGame))) ! 0) = []
   \<and> balls (tubes (currentGameState (snd (attemptMove 0 1 halfGame))) ! 1)
       = [Color ''blue'', Color ''green'', Color ''red'']
   \<and> length (balls (tubes (currentGameState (snd (attemptMove 0 1 halfGame))) ! 1)) = 3"
proof -
  have "min (of_nat (length (balls (tubes (currentGameState halfGame) ! 0))))
         (capacity (tubes (currentGameState halfGame) ! 1)
            - of_nat (length (balls (tubes (currentGameState halfGame) ! 1)))) = (5 / 2 :: rat)"
    by (simp add: halfGame_def)
  with halfLevel_loads show ?thesis
    by (simp add: halfGame_pour)
qed

section \<open>Validation of a move\<close>

text \<open>
  C3. For two distinct tube ids that resolve to tubes of the board, the bulk-pour move
  attempt checks in this order: an empty source is rejected with the reason
  "No balls to move" (EMPTY_SOURCE); otherwise a destination whose ball count is at or
  above its capacity is rejected with "Destination tube is full" (DESTINATION_FULL);
  otherwise the move is performed. A rejection returns the game unchanged (tubes, move
  count and selection), and the decision reads ball counts and capacity only, never a
  colour.
\<close>

theorem attemptMove_validation:
  assumes "findTube fromTubeId (tubes (currentGameState g)) = Some i"
    and "findTube toTubeId (tubes (currentGameState g)) = Some j"
    and "fromTubeId \<noteq> toTubeId"
  shows "attemptMove fromTubeId toTubeId g =
     (let ts = tubes (currentGameState g) in
      if length (balls (ts ! i)) = 0 then (InvalidMove ''No balls to move'', g)
      else if of_nat (length (balls (ts ! j))) \<ge> capacity (ts ! j)
        then (InvalidMove ''Destination tube is full'', g)
      else (Moved, checkWinCondition
              (deselectTube (g\<lparr>currentGameState := performMove i j (currentGameState g)\<rparr>))))"
  using assms valid_indices[OF assms(1,2)]
  by (simp add: attemptMove_def isValidMove_def Let_def)

text \<open>
  The three branches on the example boards: an empty source, a full destination, and a
  pour that goes through.
\<close>

theorem attemptMove_validation_witness:
  "findTube 1 (tubes (currentGameState exampleGame)) = Some 1
   \<and> findTube 0 (tubes (currentGameState exampleGame)) = Some 0
   \<and> (1::int) \<noteq> 0
   \<and> attemptMove 1 0 exampleGame = (InvalidMove ''No balls to move'', exampleGame)
   \<and> findTube 0 (tubes (currentGameState fullGame)) = Some 0
   \<and> findTube 1 (tubes (currentGameState fullGame)) = Some 1
   \<and> attemptMove 0 1 fullGame = (InvalidMove ''Destination tube is full'', fullGame)
   \<and> fst (attemptMove 0 1 exampleGame) = Moved"
proof -
  have e0: "findTube 0 (tubes (currentGameState exampleGame)) = Some 0"
    and e1: "findTube 1 (tubes (currentGameState exampleGame)) = Some 1"
    by (simp_all add: exampleGame_def)
  have f0: "findTube 0 (tubes (currentGameState fullGame)) = Some 0"
    and f1: "findTube 1 (tubes (currentGameState fullGame)) = Some 1"
    by (simp_all add: fullGame_def)
  have ne: "(1::int) \<noteq> 0" "(0::int) \<noteq> 1" by simp_all
  have a: "attemptMove 1 0 exampleGame = (InvalidMove ''No balls to move'', exampleGame)"
    using attemptMove_validation[OF e1 e0 ne(1)] by (simp add: exampleGame_def)
  have b: "attemptMove 0 1 fullGame = (InvalidMove ''Destination tube is full'', fullGame)"
    using attemptMove_validation[OF f0 f1 ne(2)] by (simp add: fullGame_def)
  have c: "fst (attemptMove 0 1 exampleGame) = Moved"
    using attemptMove_validation[OF e0 e1 ne(2)] by (simp add: exampleGame_def)
  from e0 e1 f0 f1 ne a b c show ?thesis by simp
qed

section \<open>The solved state is terminal\<close>

text \<open>
  C7. Once the win check has held after a move, the game is complete (Solved). In a
  complete game every tube click is ignored and returns the game unchanged, also a
  whole sequence of clicks, in both copies of the game. Only a level load (which
  \<^verbatim>\<open>resetLevel\<close> and \<^verbatim>\<open>nextLevel\<close> go through) leaves the state: for valid level
  data it installs a new board with move count 0, no selection, and the game not
  complete.
\<close>

theorem solved_is_terminal:
  "(attemptMove f t g = (Moved, g') \<and> allTubesAtDesiredLevel (currentGameState g')
      \<longrightarrow> gameComplete g')
   \<and> (gameComplete s \<longrightarrow>
        handleTubeClick c s = (Ignored, s) \<and> handleTubeClick_single c s = (Ignored, s)
        \<and> handleTubeClicks cs s = s)
   \<and> (validateLevel l \<longrightarrow>
        \<not> gameComplete (loadLevel l s) \<and> selectedTube (loadLevel l s) = None
        \<and> createGameLevel l = Some (currentGameState (loadLevel l s))
        \<and> moves (currentGameState (loadLevel l s)) = 0)"
proof (intro conjI impI)
  assume a: "attemptMove f t g = (Moved, g') \<and> allTubesAtDesiredLevel (currentGameState g')"
  with attemptMove_cases[of f g t] obtain i j where
    r: "g' = checkWinCondition
               (deselectTube (g\<lparr>currentGameState := performMove i j (currentGameState g)\<rparr>))"
    by auto
  let ?g2 = "deselectTube (g\<lparr>currentGameState := performMove i j (currentGameState g)\<rparr>)"
  from a r have "allTubesAtDesiredLevel (currentGameState ?g2)" by simp
  then show "gameComplete g'"
    by (simp add: r checkWinCondition_def handleLevelComplete_def Let_def)
next
  assume "gameComplete s"
  then show "handleTubeClick c s = (Ignored, s)" by (simp add: handleTubeClick_def)
next
  assume "gameComplete s"
  then show "handleTubeClick_single c s = (Ignored, s)" by (simp add: handleTubeClick_single_def)
next
  assume "gameComplete s"
  then show "handleTubeClicks cs s = s" by (rule handleTubeClicks_complete)
next
  assume v: "validateLevel l"
  from validateLevel_creates[OF v] v show "\<not> gameComplete (loadLevel l s)"
    by (auto simp: loadLevel_def)
  from validateLevel_creates[OF v] v show "selectedTube (loadLevel l s) = None"
    by (auto simp: loadLevel_def)
  from validateLevel_creates[OF v] v
  show "createGameLevel l = Some (currentGameState (loadLevel l s))"
    by (auto simp: loadLevel_def)
  from validateLevel_creates[OF v] v show "moves (currentGameState (loadLevel l s)) = 0"
    by (auto simp: loadLevel_def)
qed

text \<open>
  A winning pour, the clicks after it, and the load of a new level.
\<close>

theorem solved_is_terminal_witness:
  "attemptMove 0 1 winningGame = (Moved, wonGame)
   \<and> allTubesAtDesiredLevel (currentGameState wonGame)
   \<and> gameComplete wonGame
   \<and> handleTubeClick 0 wonGame = (Ignored, wonGame)
   \<and> handleTubeClicks [0, 1, 1, 0] wonGame = wonGame
   \<and> validateLevel (Some exampleLevel)
   \<and> \<not> gameComplete (loadLevel (Some exampleLevel) wonGame)
   \<and> moves (currentGameState (loadLevel (Some exampleLevel) wonGame)) = 0"
proof -
  have m: "attemptMove 0 1 winningGame = (Moved, wonGame)"
    by (rule winningGame_move)
  have w: "allTubesAtDesiredLevel (currentGameState wonGame)"
    by (simp add: wonGame_def allTubesAtDesiredLevel_def js_or_default_def)
  have v: "validateLevel (Some exampleLevel)"
    by (simp add: validateLevel_def exampleLevel_def)
  note t = solved_is_terminal[of 0 1 winningGame wonGame wonGame 0 "[0, 1, 1, 0]"
      "Some exampleLevel"]
  from t m w have c: "gameComplete wonGame" by blast
  with t v m w show ?thesis by blast
qed

section \<open>The same-tube guard\<close>

text \<open>
  C9, as stated, fails on the first copy: its \<^verbatim>\<open>isValidMove\<close> rejects a source and a
  destination with the same id, although the source is not empty and the destination
  is not full, and \<^verbatim>\<open>attemptMove\<close> reports that rejection.
\<close>

theorem same_tube_guard_counterexample:
  "isValidMove \<lparr>tube_id = 0, balls = [Color ''red''], capacity = 4\<rparr>
               \<lparr>tube_id = 0, balls = [Color ''red''], capacity = 4\<rparr>
     = Invalid ''Cannot move to same tube''
   \<and> length (balls \<lparr>tube_id = 0, balls = [Color ''red''], capacity = 4\<rparr>) \<noteq> 0
   \<and> of_nat (length (balls \<lparr>tube_id = 0, balls = [Color ''red''], capacity = 4\<rparr>))
       < capacity \<lparr>tube_id = 0, balls = [Color ''red''], capacity = 4\<rparr>
   \<and> attemptMove 0 0 pourGame = (InvalidMove ''Cannot move to same tube'', pourGame)"
  by (simp add: isValidMove_def attemptMove_def pourGame_def)

text \<open>
  C9, amended. The validation of the second copy (one ball per move) has no same-tube
  check: it rejects an empty source with "No balls to move", otherwise a full
  destination with "Tube is full", and accepts every other move. The validation of the
  first copy (bulk pour) has a same-tube check between the two: it rejects an empty
  source with "No balls to move" (also when both ids are equal), otherwise a source and
  a destination with the same id with "Cannot move to same tube" (whether the
  destination is full or not), otherwise a full destination with "Destination tube is
  full", and accepts every other move. The move attempt of the first copy reports these
  rejections in this order for any two ids that resolve, equal or not, and returns the
  game unchanged. In both copies the click handler keeps the same-tube case away from
  the move attempt: a first click on a non-empty tube selects it, a click on the
  selected tube only clears the selection, and a click on another tube attempts the
  move from the selected tube.
\<close>

theorem same_tube_check:
  "isValidMove_single fromTube toTube =
     (if length (balls fromTube) = 0 then Invalid ''No balls to move''
      else if of_nat (length (balls toTube)) \<ge> capacity toTube then Invalid ''Tube is full''
      else Valid)
   \<and> isValidMove fromTube toTube =
     (if length (balls fromTube) = 0 then Invalid ''No balls to move''
      else if tube_id fromTube = tube_id toTube then Invalid ''Cannot move to same tube''
      else if of_nat (length (balls toTube)) \<ge> capacity toTube
        then Invalid ''Destination tube is full''
      else Valid)
   \<and> (findTube fromTubeId (tubes (currentGameState g)) = Some i
        \<and> findTube toTubeId (tubes (currentGameState g)) = Some j
      \<longrightarrow> attemptMove fromTubeId toTubeId g =
           (if length (balls (tubes (currentGameState g) ! i)) = 0
              then (InvalidMove ''No balls to move'', g)
            else if fromTubeId = toTubeId then (InvalidMove ''Cannot move to same tube'', g)
            else if of_nat (length (balls (tubes (currentGameState g) ! j)))
                      \<ge> capacity (tubes (currentGameState g) ! j)
              then (InvalidMove ''Destination tube is full'', g)
            else (Moved, checkWinCondition
                    (deselectTube
                       (g\<lparr>currentGameState := performMove i j (currentGameState g)\<rparr>)))))
   \<and> (\<not> gameComplete g \<and> findTube tubeId (tubes (currentGameState g)) = Some k
        \<and> selectedTube g = Some tubeId
      \<longrightarrow> handleTubeClick tubeId g = (Deselected, g\<lparr>selectedTube := None\<rparr>)
        \<and> handleTubeClick_single tubeId g = (Deselected, g\<lparr>selectedTube := None\<rparr>))
   \<and> (\<not> gameComplete g \<and> findTube tubeId (tubes (currentGameState g)) = Some k
        \<and> selectedTube g = None \<and> balls (tubes (currentGameState g) ! k) \<noteq> []
      \<longrightarrow> handleTubeClick tubeId g = (Selected, g\<lparr>selectedTube := Some tubeId\<rparr>)
        \<and> handleTubeClick_single tubeId g = (Selected, g\<lparr>selectedTube := Some tubeId\<rparr>))
   \<and> (\<not> gameComplete g \<and> findTube tubeId (tubes (currentGameState g)) = Some k
        \<and> selectedTube g = Some sel \<and> sel \<noteq> tubeId
      \<longrightarrow> handleTubeClick tubeId g =
            (Attempted (fst (attemptMove sel tubeId g)), snd (attemptMove sel tubeId g))
        \<and> handleTubeClick_single tubeId g =
            (Attempted (fst (attemptMove_single sel tubeId g)),
             snd (attemptMove_single sel tubeId g)))"
proof (intro conjI impI)
  show "isValidMove_single fromTube toTube =
     (if length (balls fromTube) = 0 then Invalid ''No balls to move''
      else if of_nat (length (balls toTube)) \<ge> capacity toTube then Invalid ''Tube is full''
      else Valid)"
    by (simp add: isValidMove_single_def)
  show "isValidMove fromTube toTube =
     (if length (balls fromTube) = 0 then Invalid ''No balls to move''
      else if tube_id fromTube = tube_id toTube then Invalid ''Cannot move to same tube''
      else if of_nat (length (balls toTube)) \<ge> capacity toTube
        then Invalid ''Destination tube is full''
      else Valid)"
    by (simp add: isValidMove_def)
next
  assume a: "findTube fromTubeId (tubes (currentGameState g)) = Some i
        \<and> findTube toTubeId (tubes (currentGameState g)) = Some j"
  then have "tube_id (tubes (currentGameState g) ! i) = fromTubeId"
    "tube_id (tubes (currentGameState g) ! j) = toTubeId"
    using findTube_Some by blast+
  with a show "attemptMove fromTubeId toTubeId g =
           (if length (balls (tubes (currentGameState g) ! i)) = 0
              then (InvalidMove ''No balls to move'', g)
            else if fromTubeId = toTubeId then (InvalidMove ''Cannot move to same tube'', g)
            else if of_nat (length (balls (tubes (currentGameState g) ! j)))
                      \<ge> capacity (tubes (currentGameState g) ! j)
              then (InvalidMove ''Destination tube is full'', g)
            else (Moved, checkWinCondition
                    (deselectTube
                       (g\<lparr>currentGameState := performMove i j (currentGameState g)\<rparr>))))"
    by (simp add: attemptMove_def isValidMove_def Let_def)
next
  assume "\<not> gameComplete g \<and> findTube tubeId (tubes (currentGameState g)) = Some k
        \<and> selectedTube g = Some tubeId"
  then show "handleTubeClick tubeId g = (Deselected, g\<lparr>selectedTube := None\<rparr>)"
    "handleTubeClick_single tubeId g = (Deselected, g\<lparr>selectedTube := None\<rparr>)"
    by (simp_all add: handleTubeClick_def handleTubeClick_single_def deselectTube_def)
next
  assume "\<not> gameComplete g \<and> findTube tubeId (tubes (currentGameState g)) = Some k
        \<and> selectedTube g = None \<and> balls (tubes (currentGameState g) ! k) \<noteq> []"
  then show "handleTubeClick tubeId g = (Selected, g\<lparr>selectedTube := Some tubeId\<rparr>)"
    "handleTubeClick_single tubeId g = (Selected, g\<lparr>selectedTube := Some tubeId\<rparr>)"
    by (simp_all add: handleTubeClick_def handleTubeClick_single_def selectTube_def)
next
  assume "\<not> gameComplete g \<and> findTube tubeId (tubes (currentGameState g)) = Some k
        \<and> selectedTube g = Some sel \<and> sel \<noteq> tubeId"
  then show "handleTubeClick tubeId g =
            (Attempted (fst (attemptMove sel tubeId g)), snd (attemptMove sel tubeId g))"
    "handleTubeClick_single tubeId g =
            (Attempted (fst (attemptMove_single sel tubeId g)),
             snd (attemptMove_single sel tubeId g))"
    by (simp_all add: handleTubeClick_def handleTubeClick_single_def split: prod.splits)
qed

text \<open>
  The guard on a non-empty and on an empty tube, and the three click cases, on the
  example boards.
\<close>

theorem same_tube_check_witness:
  "isValidMove (tubes (currentGameState pourGame) ! 0) (tubes (currentGameState pourGame) ! 0)
     = Invalid ''Cannot move to same tube''
   \<and> isValidMove (tubes (currentGameState pourGame) ! 2) (tubes (currentGameState pourGame) ! 2)
     = Invalid ''No balls to move''
   \<and> isValidMove (tubes (currentGameState fullGame) ! 1) (tubes (currentGameState fullGame) ! 1)
     = Invalid ''Cannot move to same tube''
   \<and> isValidMove_single (tubes (currentGameState pourGame) ! 0)
       (tubes (currentGameState pourGame) ! 0) = Valid
   \<and> findTube 2 (tubes (currentGameState pourGame)) = Some 2
   \<and> attemptMove 2 2 pourGame = (InvalidMove ''No balls to move'', pourGame)
   \<and> findTube 1 (tubes (currentGameState fullGame)) = Some 1
   \<and> attemptMove 1 1 fullGame = (InvalidMove ''Cannot move to same tube'', fullGame)
   \<and> \<not> gameComplete pourGame \<and> findTube 0 (tubes (currentGameState pourGame)) = Some 0
   \<and> selectedTube pourGame = Some 0
   \<and> handleTubeClick 0 pourGame = (Deselected, pourGame\<lparr>selectedTube := None\<rparr>)
   \<and> handleTubeClick_single 0 pourGame = (Deselected, pourGame\<lparr>selectedTube := None\<rparr>)
   \<and> findTube 1 (tubes (currentGameState pourGame)) = Some 1 \<and> (0::int) \<noteq> 1
   \<and> fst (handleTubeClick 1 pourGame) = Attempted Moved
   \<and> fst (handleTubeClick_single 1 pourGame) = Attempted Moved
   \<and> selectedTube exampleGame = None \<and> \<not> gameComplete exampleGame
   \<and> findTube 0 (tubes (currentGameState exampleGame)) = Some 0
   \<and> balls (tubes (currentGameState exampleGame) ! 0) \<noteq> []
   \<and> handleTubeClick 0 exampleGame = (Selected, exampleGame\<lparr>selectedTube := Some 0\<rparr>)"
proof -
  have p: "\<not> gameComplete pourGame" "findTube 0 (tubes (currentGameState pourGame)) = Some 0"
    "selectedTube pourGame = Some 0" "findTube 1 (tubes (currentGameState pourGame)) = Some 1"
    "(0::int) \<noteq> 1" "findTube 2 (tubes (currentGameState pourGame)) = Some 2"
    by (simp_all add: pourGame_def)
  have f: "findTube 1 (tubes (currentGameState fullGame)) = Some 1"
    by (simp add: fullGame_def)
  have e: "selectedTube exampleGame = None" "\<not> gameComplete exampleGame"
    "findTube 0 (tubes (currentGameState exampleGame)) = Some 0"
    "balls (tubes (currentGameState exampleGame) ! 0) \<noteq> []"
    by (simp_all add: exampleGame_def)
  have m: "fst (attemptMove 0 1 pourGame) = Moved"
    "fst (attemptMove_single 0 1 pourGame) = Moved"
    by (simp_all add: pourGame_def attemptMove_def attemptMove_single_def isValidMove_def
        isValidMove_single_def Let_def)
  let ?t0 = "tubes (currentGameState pourGame) ! 0"
  let ?t2 = "tubes (currentGameState pourGame) ! 2"
  let ?u1 = "tubes (currentGameState fullGame) ! 1"
  note t0 = same_tube_check[of ?t0 ?t0 0 pourGame 0 0 0 0]
  note t1 = same_tube_check[of ?t2 ?t2 2 pourGame 2 2 2 1 1 0]
  note t2 = same_tube_check[of ?u1 ?u1 1 fullGame 1 1 1 0 0]
  note t3 = same_tube_check[of ?t0 ?t0 0 exampleGame 0 0 0 0 0]
  from t0 have v0: "isValidMove ?t0 ?t0 = Invalid ''Cannot move to same tube''"
    "isValidMove_single ?t0 ?t0 = Valid"
    by (simp_all add: pourGame_def)
  from t1 have v1: "isValidMove ?t2 ?t2 = Invalid ''No balls to move''"
    by (simp add: pourGame_def)
  from t2 have v2: "isValidMove ?u1 ?u1 = Invalid ''Cannot move to same tube''"
    by (simp add: fullGame_def)
  from t1 p have a1: "attemptMove 2 2 pourGame = (InvalidMove ''No balls to move'', pourGame)"
    by (simp add: pourGame_def)
  from t2 f have a2: "attemptMove 1 1 fullGame = (InvalidMove ''Cannot move to same tube'', fullGame)"
    by (simp add: fullGame_def)
  from t0 p have a: "handleTubeClick 0 pourGame = (Deselected, pourGame\<lparr>selectedTube := None\<rparr>)"
    "handleTubeClick_single 0 pourGame = (Deselected, pourGame\<lparr>selectedTube := None\<rparr>)"
    by blast+
  from t1 p m have b: "fst (handleTubeClick 1 pourGame) = Attempted Moved"
    "fst (handleTubeClick_single 1 pourGame) = Attempted Moved"
    by simp_all
  from t3 e have c: "handleTubeClick 0 exampleGame = (Selected, exampleGame\<lparr>selectedTube := Some 0\<rparr>)"
    by blast
  from p f e a b c v0 v1 v2 a1 a2 show ?thesis by simp
qed

section \<open>A level without tubes\<close>

text \<open>
  C10, as stated, fails for the level id 0: the id and the colours are present and the
  array of tubes is empty, but \<^verbatim>\<open>!levelData.levelId\<close> holds and the validation
  returns false.
\<close>

theorem validateLevel_zero_id_counterexample:
  "level_tubes (emptyLevel\<lparr>level_id := Some 0\<rparr>) = Some []
   \<and> level_id (emptyLevel\<lparr>level_id := Some 0\<rparr>) \<noteq> None
   \<and> level_colors (emptyLevel\<lparr>level_id := Some 0\<rparr>) \<noteq> None
   \<and> \<not> validateLevel (Some (emptyLevel\<lparr>level_id := Some 0\<rparr>))"
  by (simp add: emptyLevel_def validateLevel_def)

text \<open>
  C10, amended. A level definition whose array of tubes is empty passes
  \<^verbatim>\<open>validateLevel\<close> when its id is present and not 0 and its colours are an array.
  Loading it gives a board without tubes, not yet complete; on that board the win test
  holds vacuously, and the first win check marks the game complete.
\<close>

theorem empty_level_valid_and_won:
  assumes "level_tubes ld = Some []" and "level_id ld = Some n" and "n \<noteq> 0"
    and "level_colors ld = Some cs"
  shows "validateLevel (Some ld)
       \<and> tubes (currentGameState (loadLevel (Some ld) g)) = []
       \<and> \<not> gameComplete (loadLevel (Some ld) g)
       \<and> allTubesAtDesiredLevel (currentGameState (loadLevel (Some ld) g))
       \<and> gameComplete (checkWinCondition (loadLevel (Some ld) g))"
  using assms
  by (simp add: validateLevel_def loadLevel_def createGameLevel_def checkWinCondition_def
      allTubesAtDesiredLevel_def handleLevelComplete_def Let_def)

text \<open>The empty level with id 7, loaded over a finished game.\<close>

theorem empty_level_valid_and_won_witness:
  "level_tubes emptyLevel = Some [] \<and> level_id emptyLevel = Some 7 \<and> (7::int) \<noteq> 0
   \<and> level_colors emptyLevel = Some [Color ''red'']
   \<and> validateLevel (Some emptyLevel)
   \<and> tubes (currentGameState (loadLevel (Some emptyLevel) wonGame)) = []
   \<and> gameComplete (checkWinCondition (loadLevel (Some emptyLevel) wonGame))"
proof -
  have h: "level_tubes emptyLevel = Some []" "level_id emptyLevel = Some 7" "(7::int) \<noteq> 0"
    "level_colors emptyLevel = Some [Color ''red'']"
    by (simp_all add: emptyLevel_def)
  from empty_level_valid_and_won[OF h, of wonGame] h show ?thesis by simp
qed

section \<open>Star rating\<close>

text \<open>
  C8. The star rating is a most-generous-first lookup: 3 stars if the move count is at
  most the threshold of key "3", else 2 if at most that of key "2", else 1 if at most
  that of key "1", else 0. With thresholds 1: 18, 2: 13, 3: 9 the rating of 7 moves
  is 3, of 10 moves is 2 and of 20 moves is 0. The rating is at most 3 for any
  thresholds, and it is the rating that level completion records for the move count
  and the thresholds of the board.
\<close>

theorem starsEarned_lookup:
  "starsEarned mv [''1'' \<mapsto> t1, ''2'' \<mapsto> t2, ''3'' \<mapsto> t3] =
     (if mv \<le> t3 then 3 else if mv \<le> t2 then 2 else if mv \<le> t1 then 1 else 0)
   \<and> starsEarned 7 [''1'' \<mapsto> 18, ''2'' \<mapsto> 13, ''3'' \<mapsto> 9] = 3
   \<and> starsEarned 10 [''1'' \<mapsto> 18, ''2'' \<mapsto> 13, ''3'' \<mapsto> 9] = 2
   \<and> starsEarned 20 [''1'' \<mapsto> 18, ''2'' \<mapsto> 13, ''3'' \<mapsto> 9] = 0
   \<and> starsEarned mv st \<le> 3
   \<and> completions (handleLevelComplete g) =
       completions g @ [(moves (currentGameState g),
                         starsEarned (moves (currentGameState g)) (stars (currentGameState g)))]"
proof -
  have lookup: "starsEarned mv [''1'' \<mapsto> t1, ''2'' \<mapsto> t2, ''3'' \<mapsto> t3] =
     (if mv \<le> t3 then 3 else if mv \<le> t2 then 2 else if mv \<le> t1 then 1 else 0)"
    for mv t1 t2 t3
    by (simp add: starsEarned_def js_le_def)
  have examples: "starsEarned 7 [''1'' \<mapsto> 18, ''2'' \<mapsto> 13, ''3'' \<mapsto> 9] = 3"
    "starsEarned 10 [''1'' \<mapsto> 18, ''2'' \<mapsto> 13, ''3'' \<mapsto> 9] = 2"
    "starsEarned 20 [''1'' \<mapsto> 18, ''2'' \<mapsto> 13, ''3'' \<mapsto> 9] = 0"
    by (simp_all add: lookup)
  have bound: "starsEarned mv st \<le> 3"
    by (simp add: starsEarned_def)
  have recorded: "completions (handleLevelComplete g) =
       completions g @ [(moves (currentGameState g),
                         starsEarned (moves (currentGameState g)) (stars (currentGameState g)))]"
    by (simp add: handleLevelComplete_def Let_def)
  from lookup examples bound recorded show ?thesis by blast
qed

end
